theory Spec2Isabelle
  imports Complex_Main "HOL-Library.Sublist"
begin

section \<open>Data model\<close>

text \<open>
  JavaScript numbers are modelled as reals (and integers where the source only ever
  holds integers); a field that may be \<open>undefined\<close> is an \<open>option\<close>. A number used
  as a condition is truthy exactly when it is not zero. The field \<open>types\<close> of a place
  is \<open>place_types\<close> here, and the field \<open>keywords\<close> of a mood mapping is
  \<open>mood_keywords\<close>.
\<close>

record opening_hours =
  open_now :: "bool option"

record place =
  place_id :: string
  name :: "string option"
  vicinity :: "string option"
  place_types :: "string list option"
  rating :: "real option"
  user_ratings_total :: "real option"
  price_level :: "int option"
  opening_hours :: "opening_hours option"
  lat :: real
  lng :: real
  distance :: "real option"
  relevanceScore :: "int option"

record mood_mapping =
  types :: "string list"
  mood_keywords :: "string list"
  description :: string
  preferredPrice :: "int list option"
  prioritizeRating :: bool

text \<open>\<open>place.opening_hours?.open_now\<close> used as a condition.\<close>

definition is_open_now :: "place \<Rightarrow> bool" where
  "is_open_now p =
     (case opening_hours p of None \<Rightarrow> False
      | Some oh \<Rightarrow> (case open_now oh of None \<Rightarrow> False | Some b \<Rightarrow> b))"

text \<open>\<open>Math.round\<close>: the nearest integer, halves rounded up.\<close>

definition js_round :: "real \<Rightarrow> int" where
  "js_round x = \<lfloor>x + 1 / 2\<rfloor>"

section \<open>Relevance score (moodMapping.js, calculateRelevanceScore)\<close>

definition placeTypes_of :: "place \<Rightarrow> string list" where
  "placeTypes_of p = (case place_types p of None \<Rightarrow> [] | Some ts \<Rightarrow> ts)"

definition matchingTypes :: "place \<Rightarrow> mood_mapping \<Rightarrow> string list" where
  "matchingTypes p m = filter (\<lambda>t. t \<in> set (types m)) (placeTypes_of p)"

text \<open>The type-match block: \<open>matchingTypes.length > 0\<close>, the primary type, then
  \<open>matchingTypes.length * 10\<close>.\<close>

definition type_match_bonus :: "place \<Rightarrow> mood_mapping \<Rightarrow> real" where
  "type_match_bonus p m =
     (if length (matchingTypes p m) > 0
      then (case types m of
              [] \<Rightarrow> 0
            | primaryType # rest \<Rightarrow>
                (if primaryType \<in> set (placeTypes_of p) then 20 else 0))
           + real (length (matchingTypes p m)) * 10
      else 0)"

definition price_match :: "place \<Rightarrow> mood_mapping \<Rightarrow> real" where
  "price_match p m =
     (case price_level p of
        None \<Rightarrow> 0
      | Some pl \<Rightarrow>
          (case preferredPrice m of
             None \<Rightarrow> 0
           | Some pp \<Rightarrow> (if pl \<in> set pp then 12 else - 5)))"

definition rating_bonus :: "place \<Rightarrow> mood_mapping \<Rightarrow> real" where
  "rating_bonus p m =
     (case rating p of
        None \<Rightarrow> 0
      | Some r \<Rightarrow>
          (if r = 0 then 0
           else if prioritizeRating m
           then (if r \<ge> 4.5 then 20 else if r \<ge> 4.0 then 15 else if r \<ge> 3.5 then 10 else 5)
           else (r / 5) * 10))"

definition ratings_count_bonus :: "place \<Rightarrow> real" where
  "ratings_count_bonus p =
     (case user_ratings_total p of
        None \<Rightarrow> 0
      | Some n \<Rightarrow>
          (if n = 0 then 0
           else if n \<ge> 500 then 12 else if n \<ge> 100 then 8 else if n \<ge> 50 then 5 else 2))"

definition open_now_bonus :: "place \<Rightarrow> real" where
  "open_now_bonus p = (if is_open_now p then 8 else 0)"

definition distance_adjust :: "place \<Rightarrow> real" where
  "distance_adjust p =
     (case distance p of
        None \<Rightarrow> 0
      | Some d \<Rightarrow>
          (if d = 0 then 0
           else if d > 3000 then - 5 else if d < 500 then 5 else 0))"

definition calculateRelevanceScore :: "place \<Rightarrow> mood_mapping \<Rightarrow> int" where
  "calculateRelevanceScore p m =
     (let score = 40;
          score = score + type_match_bonus p m;
          score = score + price_match p m;
          score = score + rating_bonus p m;
          score = score + ratings_count_bonus p;
          score = score + open_now_bonus p;
          score = score + distance_adjust p
      in max 0 (min (js_round score) 100))"

text \<open>A candidate with only an id, and the same candidate with a list of types, a
  rating or a distance.\<close>

definition bare_place :: "string \<Rightarrow> place" where
  "bare_place i =
     \<lparr>place_id = i, name = None, vicinity = None, place_types = None, rating = None,
      user_ratings_total = None, price_level = None, opening_hours = None,
      lat = 0, lng = 0, distance = None, relevanceScore = None\<rparr>"

definition typed_place :: "string \<Rightarrow> string list \<Rightarrow> place" where
  "typed_place i ts = (bare_place i)\<lparr>place_types := Some ts\<rparr>"

definition rated_place :: "string \<Rightarrow> real \<Rightarrow> place" where
  "rated_place i r = (bare_place i)\<lparr>rating := Some r\<rparr>"

definition distant_place :: "string \<Rightarrow> real \<Rightarrow> place" where
  "distant_place i d = (bare_place i)\<lparr>distance := Some d\<rparr>"

text \<open>The entry of the mood table for breakfast.\<close>

definition breakfast_mapping :: mood_mapping where
  "breakfast_mapping =
     \<lparr>types = [''cafe'', ''bakery'', ''restaurant''],
      mood_keywords = [''breakfast'', ''brunch'', ''pancakes'', ''eggs'', ''morning'', ''diner''],
      description = ''Morning meals'',
      preferredPrice = Some [1, 2],
      prioritizeRating = True\<rparr>"

section \<open>Strings\<close>

text \<open>
  Strings are lists of characters; \<open>toLowerCase\<close> is modelled on the letters A to Z,
  \<open>trim\<close> on the ASCII white space, and \<open>s.includes(q)\<close> is the test that \<open>q\<close>
  occurs in \<open>s\<close> as a contiguous substring.
\<close>

definition toLowerChar :: "char \<Rightarrow> char" where
  "toLowerChar c =
     (case map_of (zip ''ABCDEFGHIJKLMNOPQRSTUVWXYZ'' ''abcdefghijklmnopqrstuvwxyz'') c of
        None \<Rightarrow> c
      | Some d \<Rightarrow> d)"

definition toLowerCase :: "string \<Rightarrow> string" where
  "toLowerCase s = map toLowerChar s"

definition is_whitespace :: "char \<Rightarrow> bool" where
  "is_whitespace c = (c \<in> set [CHR '' '', CHR 0x09, CHR 0x0A, CHR 0x0B, CHR 0x0C, CHR 0x0D])"

definition trim :: "string \<Rightarrow> string" where
  "trim s = rev (dropWhile is_whitespace (rev (dropWhile is_whitespace s)))"

text \<open>\<open>s.replace(/-/g, ' ')\<close>\<close>

definition hyphens_to_spaces :: "string \<Rightarrow> string" where
  "hyphens_to_spaces s = map (\<lambda>c. if c = CHR ''-'' then CHR '' '' else c) s"

fun str_includes :: "string \<Rightarrow> string \<Rightarrow> bool" where
  "str_includes [] q = (q = [])"
| "str_includes (c # s) q = (prefix q (c # s) \<or> str_includes s q)"

section \<open>Filtering (filterSort.js, filterPlaces)\<close>

text \<open>
  The filter criteria after destructuring with its defaults. \<open>maxDistance\<close> is
  \<open>None\<close> for \<open>Infinity\<close>; \<open>priceLevel\<close> is \<open>null\<close>, an array of levels or a single
  highest level; \<open>types\<close> is \<open>null\<close> or a list.
\<close>

datatype price_filter = PriceNull | PriceArray "int list" | PriceMax int

record filters =
  minRating :: real
  maxDistance :: "real option"
  openNow :: bool
  priceLevel :: price_filter
  filter_types :: "string list option"
  searchQuery :: string

text \<open>\<open>place.rating && place.rating < minRating\<close>\<close>

definition rating_fails :: "filters \<Rightarrow> place \<Rightarrow> bool" where
  "rating_fails f p =
     (case rating p of None \<Rightarrow> False | Some r \<Rightarrow> r \<noteq> 0 \<and> r < minRating f)"

text \<open>\<open>place.distance && place.distance > maxDistance\<close>\<close>

definition distance_fails :: "filters \<Rightarrow> place \<Rightarrow> bool" where
  "distance_fails f p =
     (case distance p of
        None \<Rightarrow> False
      | Some d \<Rightarrow> d \<noteq> 0 \<and> (case maxDistance f of None \<Rightarrow> False | Some mx \<Rightarrow> d > mx))"

text \<open>\<open>openNow && place.opening_hours && !place.opening_hours.open_now\<close>\<close>

definition open_now_fails :: "filters \<Rightarrow> place \<Rightarrow> bool" where
  "open_now_fails f p =
     (openNow f \<and>
      (case opening_hours p of
         None \<Rightarrow> False
       | Some oh \<Rightarrow> \<not> (case open_now oh of None \<Rightarrow> False | Some b \<Rightarrow> b)))"

definition price_fails :: "filters \<Rightarrow> place \<Rightarrow> bool" where
  "price_fails f p =
     (case priceLevel f of
        PriceNull \<Rightarrow> False
      | PriceArray levels \<Rightarrow>
          (case price_level p of None \<Rightarrow> False | Some pl \<Rightarrow> pl \<notin> set levels)
      | PriceMax level \<Rightarrow>
          (case price_level p of None \<Rightarrow> False | Some pl \<Rightarrow> pl > level))"

definition types_fail :: "filters \<Rightarrow> place \<Rightarrow> bool" where
  "types_fail f p =
     (case filter_types f of
        None \<Rightarrow> False
      | Some ts \<Rightarrow>
          length ts > 0 \<and> \<not> list_ex (\<lambda>t. t \<in> set (placeTypes_of p)) ts)"

definition query_fails :: "filters \<Rightarrow> place \<Rightarrow> bool" where
  "query_fails f p =
     (searchQuery f \<noteq> [] \<and>
      (let query = toLowerCase (searchQuery f);
           name' = toLowerCase (case name p of None \<Rightarrow> [] | Some n \<Rightarrow> n);
           vicinity' = toLowerCase (case vicinity p of None \<Rightarrow> [] | Some v \<Rightarrow> v)
       in \<not> str_includes name' query \<and> \<not> str_includes vicinity' query))"

text \<open>The callback of \<open>places.filter\<close>: the first failing test returns false.\<close>

definition passes_filters :: "filters \<Rightarrow> place \<Rightarrow> bool" where
  "passes_filters f p =
     (if rating_fails f p then False
      else if distance_fails f p then False
      else if open_now_fails f p then False
      else if price_fails f p then False
      else if types_fail f p then False
      else if query_fails f p then False
      else True)"

definition filterPlaces :: "place list \<Rightarrow> filters \<Rightarrow> place list" where
  "filterPlaces places f = filter (passes_filters f) places"

text \<open>The criteria with only a rating floor: every other field at its default.\<close>

definition rating_only :: "real \<Rightarrow> filters" where
  "rating_only r =
     \<lparr>minRating = r, maxDistance = None, openNow = False, priceLevel = PriceNull,
      filter_types = None, searchQuery = []\<rparr>"

section \<open>Sorting (filterSort.js, sortPlaces and calculatePlaceScore)\<close>

text \<open>
  \<open>Array.prototype.sort\<close> with a comparator is stable; for a comparator that orders
  its arguments consistently its result is the one of the stable insertion sort below:
  an element goes before the first later element that does not compare below it.
\<close>

fun insert_by :: "('a \<Rightarrow> 'a \<Rightarrow> real) \<Rightarrow> 'a \<Rightarrow> 'a list \<Rightarrow> 'a list" where
  "insert_by cmp x [] = [x]"
| "insert_by cmp x (y # ys) =
     (if cmp x y \<le> 0 then x # y # ys else y # insert_by cmp x ys)"

definition js_sort :: "('a \<Rightarrow> 'a \<Rightarrow> real) \<Rightarrow> 'a list \<Rightarrow> 'a list" where
  "js_sort cmp xs = foldr (insert_by cmp) xs []"

definition SORT_NEAREST :: string where "SORT_NEAREST = ''nearest''"
definition SORT_HIGHEST_RATED :: string where "SORT_HIGHEST_RATED = ''highest_rated''"
definition SORT_BEST_MATCH :: string where "SORT_BEST_MATCH = ''best_match''"
definition SORT_PRICE_LOW :: string where "SORT_PRICE_LOW = ''price_low''"
definition SORT_PRICE_HIGH :: string where "SORT_PRICE_HIGH = ''price_high''"

text \<open>\<open>x || 0\<close> on an optional number, and \<open>x ?? d\<close> on an optional price level.\<close>

definition or_zero :: "real option \<Rightarrow> real" where
  "or_zero x = (case x of None \<Rightarrow> 0 | Some r \<Rightarrow> r)"

definition price_or :: "int \<Rightarrow> place \<Rightarrow> real" where
  "price_or d p = (case price_level p of None \<Rightarrow> real_of_int d | Some pl \<Rightarrow> real_of_int pl)"

definition calculatePlaceScore :: "place \<Rightarrow> mood_mapping option \<Rightarrow> real" where
  "calculatePlaceScore p moodMapping =
     (let score = 0;
          score = (case moodMapping of
                     None \<Rightarrow> score
                   | Some m \<Rightarrow> score + real_of_int (calculateRelevanceScore p m) * 0.3);
          score = (case rating p of
                     None \<Rightarrow> score
                   | Some r \<Rightarrow> if r \<noteq> 0 then score + (r / 5) * 25 else score);
          score = (case user_ratings_total p of
                     None \<Rightarrow> score
                   | Some n \<Rightarrow> if n \<noteq> 0 then score + min (n / 500) 1 * 15 else score);
          score = (case distance p of
                     None \<Rightarrow> score
                   | Some d \<Rightarrow> if d \<noteq> 0 then score + max 0 (20 - d / 500) else score);
          score = (if is_open_now p then score + 10 else score)
      in score)"

definition compare_nearest :: "place \<Rightarrow> place \<Rightarrow> real" where
  "compare_nearest a b = or_zero (distance a) - or_zero (distance b)"

definition compare_highest_rated :: "place \<Rightarrow> place \<Rightarrow> real" where
  "compare_highest_rated a b =
     (let ratingDiff = or_zero (rating b) - or_zero (rating a)
      in if ratingDiff \<noteq> 0 then ratingDiff
         else or_zero (user_ratings_total b) - or_zero (user_ratings_total a))"

definition compare_price_low :: "place \<Rightarrow> place \<Rightarrow> real" where
  "compare_price_low a b = price_or 5 a - price_or 5 b"

definition compare_price_high :: "place \<Rightarrow> place \<Rightarrow> real" where
  "compare_price_high a b = price_or (- 1) b - price_or (- 1) a"

definition compare_best_match :: "mood_mapping option \<Rightarrow> place \<Rightarrow> place \<Rightarrow> real" where
  "compare_best_match moodMapping a b =
     calculatePlaceScore b moodMapping - calculatePlaceScore a moodMapping"

definition sortPlaces :: "place list \<Rightarrow> string \<Rightarrow> mood_mapping option \<Rightarrow> place list" where
  "sortPlaces places sortBy moodMapping =
     (if sortBy = SORT_NEAREST then js_sort compare_nearest places
      else if sortBy = SORT_HIGHEST_RATED then js_sort compare_highest_rated places
      else if sortBy = SORT_PRICE_LOW then js_sort compare_price_low places
      else if sortBy = SORT_PRICE_HIGH then js_sort compare_price_high places
      else js_sort (compare_best_match moodMapping) places)"

definition filterAndSortPlaces ::
  "place list \<Rightarrow> filters \<Rightarrow> string \<Rightarrow> mood_mapping option \<Rightarrow> place list" where
  "filterAndSortPlaces places f sortBy moodMapping =
     sortPlaces (filterPlaces places f) sortBy moodMapping"

section \<open>The places provider (placesApi.js)\<close>

text \<open>
  What the service module sees of the outside: whether the Maps API is loaded
  (\<open>getGoogleMapsApi\<close> throws when it is not) and what the places service answers to a
  request, a list of results with a status string. The great-circle distance
  \<open>calculateDistance\<close> is a parameter of the functions that annotate results with it.
\<close>

type_synonym latlng = "real \<times> real"

record nearby_request =
  nearby_location :: latlng
  nearby_radius :: real
  nearby_type :: "string option"
  nearby_keyword :: "string option"

record text_request =
  text_query :: string
  text_location :: latlng
  text_radius :: real

record provider =
  api_loaded :: bool
  nearbySearch :: "nearby_request \<Rightarrow> place list \<times> string"
  textSearch :: "text_request \<Rightarrow> place list \<times> string"
  getDetails :: "string \<Rightarrow> place \<times> string"

definition api_not_loaded :: string where
  "api_not_loaded = ''Google Maps API not loaded. Call loadGoogleMapsApi() first.''"

text \<open>\<open>{...place, distance: calculateDistance(location, {lat, lng})}\<close>\<close>

definition with_distance :: "(latlng \<Rightarrow> latlng \<Rightarrow> real) \<Rightarrow> latlng \<Rightarrow> place \<Rightarrow> place" where
  "with_distance calculateDistance location p =
     p\<lparr>distance := Some (calculateDistance location (lat p, lng p))\<rparr>"

text \<open>A string used as a condition: present and not empty.\<close>

definition nonempty_string :: "string option \<Rightarrow> string option" where
  "nonempty_string s = (case s of None \<Rightarrow> None | Some t \<Rightarrow> if t = [] then None else Some t)"

text \<open>
  \<open>searchNearbyPlaces\<close>: the promise settles with the results (\<open>Inr\<close>) or is rejected
  with an error message (\<open>Inl\<close>). The options are the location, the radius (2000 when
  left out), \<open>type\<close>, \<open>types\<close> and \<open>keyword\<close>.
\<close>

definition searchNearbyPlaces ::
  "provider \<Rightarrow> (latlng \<Rightarrow> latlng \<Rightarrow> real) \<Rightarrow> latlng \<Rightarrow> real option \<Rightarrow> string option \<Rightarrow>
   string list \<Rightarrow> string option \<Rightarrow> string + place list" where
  "searchNearbyPlaces pr calculateDistance location radius type' types' keyword =
     (if \<not> api_loaded pr then Inl api_not_loaded
      else
        let request =
              \<lparr>nearby_location = location,
               nearby_radius = (case radius of None \<Rightarrow> 2000 | Some r \<Rightarrow> r),
               nearby_type =
                 (case nonempty_string type' of
                    Some t \<Rightarrow> Some t
                  | None \<Rightarrow> (case types' of [] \<Rightarrow> None | t # rest \<Rightarrow> Some t)),
               nearby_keyword = nonempty_string keyword\<rparr>;
            (results, status) = nearbySearch pr request
        in if status = ''OK''
           then Inr (map (with_distance calculateDistance location) results)
           else if status = ''ZERO_RESULTS'' then Inr []
           else Inl (''Places search failed: '' @ status))"

definition textSearchPlaces ::
  "provider \<Rightarrow> (latlng \<Rightarrow> latlng \<Rightarrow> real) \<Rightarrow> string \<Rightarrow> latlng \<Rightarrow> real option \<Rightarrow>
   string + place list" where
  "textSearchPlaces pr calculateDistance query location radius =
     (if \<not> api_loaded pr then Inl api_not_loaded
      else
        let request =
              \<lparr>text_query = query,
               text_location = location,
               text_radius = (case radius of None \<Rightarrow> 2000 | Some r \<Rightarrow> r)\<rparr>;
            (results, status) = textSearch pr request
        in if status = ''OK''
           then Inr (map (with_distance calculateDistance location) results)
           else if status = ''ZERO_RESULTS'' then Inr []
           else Inl (''Text search failed: '' @ status))"

text \<open>\<open>.catch(err => [])\<close>: a rejected sub-query counts as an empty result.\<close>

definition catch_empty :: "string + place list \<Rightarrow> place list" where
  "catch_empty r = (case r of Inl err \<Rightarrow> [] | Inr ps \<Rightarrow> ps)"

text \<open>The value of a settled sub-query: its results when it resolved, nothing when it
  was rejected.\<close>

definition resolved_value :: "string + place list \<Rightarrow> place list option" where
  "resolved_value r = (case r of Inl err \<Rightarrow> None | Inr ps \<Rightarrow> Some ps)"

text \<open>
  The array \<open>results\<close> that \<open>Promise.all\<close> yields: one list for each type, then one
  for each keyword.
\<close>

definition sub_query_results ::
  "provider \<Rightarrow> (latlng \<Rightarrow> latlng \<Rightarrow> real) \<Rightarrow> string list \<Rightarrow> string list \<Rightarrow> latlng \<Rightarrow>
   real option \<Rightarrow> place list list" where
  "sub_query_results pr calculateDistance types' keywords' location radius =
     (let typePromises =
            map (\<lambda>t. catch_empty
                   (searchNearbyPlaces pr calculateDistance location radius (Some t) [] None))
              types';
          keywordPromises =
            map (\<lambda>k. catch_empty (textSearchPlaces pr calculateDistance k location radius))
              keywords'
      in typePromises @ keywordPromises)"

text \<open>
  \<open>allResults\<close> is a \<open>Map\<close> from \<open>place_id\<close> to place, kept here as the list of its
  entries in insertion order; \<open>set\<close> is only called for a key that is not yet there.
\<close>

definition add_result :: "(string \<times> place) list \<Rightarrow> place \<Rightarrow> (string \<times> place) list" where
  "add_result allResults p =
     (if place_id p \<notin> set (map fst allResults)
      then allResults @ [(place_id p, p)]
      else allResults)"

definition deduplicate :: "place list list \<Rightarrow> place list" where
  "deduplicate results = map snd (foldl add_result [] (concat results))"

text \<open>
  \<open>searchMultipleTypes\<close>: \<open>types\<close> may be \<open>undefined\<close> (\<open>types.map\<close> then throws a
  TypeError and the promise is rejected); \<open>keywords\<close> defaults to the empty list.
\<close>

definition searchMultipleTypes ::
  "provider \<Rightarrow> (latlng \<Rightarrow> latlng \<Rightarrow> real) \<Rightarrow> string list option \<Rightarrow> string list option \<Rightarrow>
   latlng \<Rightarrow> real option \<Rightarrow> string + place list" where
  "searchMultipleTypes pr calculateDistance types' keywords' location radius =
     (case types' of
        None \<Rightarrow> Inl ''TypeError: types is undefined''
      | Some ts \<Rightarrow>
          Inr (deduplicate
                 (sub_query_results pr calculateDistance ts
                    (case keywords' of None \<Rightarrow> [] | Some ks \<Rightarrow> ks) location radius)))"

text \<open>A provider that answers every search with an error status, and one whose API is
  not loaded.\<close>

definition failing_provider :: provider where
  "failing_provider =
     \<lparr>api_loaded = True,
      nearbySearch = (\<lambda>request. ([], ''UNKNOWN_ERROR'')),
      textSearch = (\<lambda>request. ([], ''UNKNOWN_ERROR'')),
      getDetails = (\<lambda>placeId. (bare_place placeId, ''UNKNOWN_ERROR''))\<rparr>"

definition unloaded_provider :: provider where
  "unloaded_provider = failing_provider\<lparr>api_loaded := False\<rparr>"

text \<open>A provider with two cafes, one of which is also found by the keyword search.\<close>

definition sample_provider :: provider where
  "sample_provider =
     \<lparr>api_loaded = True,
      nearbySearch = (\<lambda>request.
         if nearby_type request = Some ''cafe''
         then ([typed_place ''A'' [''cafe''], typed_place ''B'' [''cafe'']], ''OK'')
         else ([], ''REQUEST_DENIED'')),
      textSearch = (\<lambda>request.
         if text_query request = ''coffee''
         then ([rated_place ''B'' 4.5, rated_place ''C'' 4], ''OK'')
         else ([], ''ZERO_RESULTS'')),
      getDetails = (\<lambda>placeId. (bare_place placeId, ''OK''))\<rparr>"

definition sample_distance :: "latlng \<Rightarrow> latlng \<Rightarrow> real" where
  "sample_distance a b = \<bar>fst a - fst b\<bar> + \<bar>snd a - snd b\<bar>"

section \<open>The mood table (moodMapping.js, moodMappings and getMoodMapping)\<close>

text \<open>
  The object literal \<open>moodMappings\<close>, as the list of its own properties in the order
  of \<open>Object.keys\<close>.
\<close>

definition moodMappings :: "(string \<times> mood_mapping) list" where
  "moodMappings =
     [(''work'',
       \<lparr>types = [''cafe'', ''library''],
        mood_keywords = [''coworking'', ''workspace'', ''study cafe'', ''wifi cafe'',
           ''coffee shop work''],
        description = ''Places to work or study'',
        preferredPrice = Some [1, 2],
        prioritizeRating = True\<rparr>),
      (''study'',
       \<lparr>types = [''library'', ''cafe''],
        mood_keywords = [''study'', ''quiet'', ''library'', ''reading room''],
        description = ''Quiet places to focus'',
        preferredPrice = Some [0, 1],
        prioritizeRating = False\<rparr>),
      (''meeting'',
       \<lparr>types = [''cafe'', ''restaurant''],
        mood_keywords = [''business'', ''meeting'', ''conference cafe'', ''professional''],
        description = ''Places for business meetings'',
        preferredPrice = Some [2, 3],
        prioritizeRating = True\<rparr>),
      (''date'',
       \<lparr>types = [''restaurant'', ''bar'', ''cafe''],
        mood_keywords = [''romantic'', ''dinner'', ''lounge'', ''cocktail'', ''candlelit'',
           ''intimate'', ''wine bar'', ''rooftop''],
        description = ''Romantic spots for dates'',
        preferredPrice = Some [2, 3, 4],
        prioritizeRating = True\<rparr>),
      (''drinks'',
       \<lparr>types = [''bar'', ''night_club'', ''cafe''],
        mood_keywords = [''pub'', ''cocktail'', ''wine bar'', ''brewery'', ''beer'',
           ''happy hour'', ''sports bar''],
        description = ''Places for drinks'',
        preferredPrice = Some [2, 3],
        prioritizeRating = True\<rparr>),
      (''nightlife'',
       \<lparr>types = [''night_club'', ''bar''],
        mood_keywords = [''club'', ''dance'', ''nightlife'', ''dj'', ''party'', ''lounge''],
        description = ''Night entertainment venues'',
        preferredPrice = Some [2, 3, 4],
        prioritizeRating = False\<rparr>),
      (''quick bite'',
       \<lparr>types = [''restaurant'', ''meal_takeaway'', ''bakery'', ''cafe''],
        mood_keywords = [''fast food'', ''quick'', ''takeaway'', ''grab and go'', ''snack'',
           ''sandwich'', ''burger'', ''pizza''],
        description = ''Fast and convenient food'',
        preferredPrice = Some [1, 2],
        prioritizeRating = False\<rparr>),
      (''breakfast'',
       \<lparr>types = [''cafe'', ''bakery'', ''restaurant''],
        mood_keywords = [''breakfast'', ''brunch'', ''pancakes'', ''eggs'', ''morning'',
           ''diner''],
        description = ''Morning meals'',
        preferredPrice = Some [1, 2],
        prioritizeRating = True\<rparr>),
      (''brunch'',
       \<lparr>types = [''restaurant'', ''cafe''],
        mood_keywords = [''brunch'', ''breakfast'', ''mimosa'', ''sunday brunch'',
           ''eggs benedict''],
        description = ''Brunch spots'',
        preferredPrice = Some [2, 3],
        prioritizeRating = True\<rparr>),
      (''lunch'',
       \<lparr>types = [''restaurant'', ''cafe'', ''meal_takeaway''],
        mood_keywords = [''lunch'', ''midday'', ''lunch special'', ''salad'', ''soup''],
        description = ''Lunch options'',
        preferredPrice = Some [1, 2, 3],
        prioritizeRating = True\<rparr>),
      (''dinner'',
       \<lparr>types = [''restaurant''],
        mood_keywords = [''dinner'', ''fine dining'', ''evening'', ''gourmet'', ''steakhouse'',
           ''seafood''],
        description = ''Dinner restaurants'',
        preferredPrice = Some [2, 3, 4],
        prioritizeRating = True\<rparr>),
      (''coffee'',
       \<lparr>types = [''cafe''],
        mood_keywords = [''coffee'', ''espresso'', ''latte'', ''cappuccino'', ''coffee shop'',
           ''specialty coffee'', ''barista''],
        description = ''Coffee shops'',
        preferredPrice = Some [1, 2],
        prioritizeRating = True\<rparr>),
      (''dessert'',
       \<lparr>types = [''bakery'', ''cafe''],
        mood_keywords = [''dessert'', ''ice cream'', ''cake'', ''pastry'', ''sweet'',
           ''gelato'', ''cupcake'', ''chocolate''],
        description = ''Sweet treats'',
        preferredPrice = Some [1, 2],
        prioritizeRating = True\<rparr>),
      (''budget'',
       \<lparr>types = [''restaurant'', ''cafe'', ''meal_takeaway''],
        mood_keywords = [''cheap'', ''affordable'', ''budget'', ''value'', ''deals'',
           ''happy hour'', ''lunch special''],
        description = ''Budget-friendly options'',
        preferredPrice = Some [0, 1],
        prioritizeRating = False\<rparr>),
      (''fancy'',
       \<lparr>types = [''restaurant'', ''bar''],
        mood_keywords = [''upscale'', ''fine dining'', ''luxury'', ''gourmet'', ''michelin'',
           ''elegant'', ''exclusive''],
        description = ''Upscale experiences'',
        preferredPrice = Some [3, 4],
        prioritizeRating = True\<rparr>),
      (''chill'',
       \<lparr>types = [''cafe'', ''park'', ''bar''],
        mood_keywords = [''relax'', ''chill'', ''cozy'', ''lounge'', ''quiet'', ''peaceful'',
           ''laid back''],
        description = ''Relaxed atmosphere'',
        preferredPrice = Some [1, 2],
        prioritizeRating = True\<rparr>),
      (''spa'',
       \<lparr>types = [''spa'', ''beauty_salon''],
        mood_keywords = [''massage'', ''wellness'', ''relaxation'', ''facial'', ''sauna'',
           ''day spa''],
        description = ''Spa and wellness'',
        preferredPrice = Some [2, 3, 4],
        prioritizeRating = True\<rparr>),
      (''family'',
       \<lparr>types = [''restaurant'', ''park'', ''amusement_park'', ''zoo'', ''aquarium''],
        mood_keywords = [''family friendly'', ''kids'', ''children'', ''family restaurant'',
           ''playground'', ''kid menu''],
        description = ''Family-friendly places'',
        preferredPrice = Some [1, 2],
        prioritizeRating = True\<rparr>),
      (''kids'',
       \<lparr>types = [''park'', ''amusement_park'', ''zoo'', ''aquarium''],
        mood_keywords = [''playground'', ''kids'', ''family'', ''children'', ''play area'',
           ''arcade''],
        description = ''Kid-friendly activities'',
        preferredPrice = Some [1, 2],
        prioritizeRating = True\<rparr>),
      (''outdoors'',
       \<lparr>types = [''park'', ''campground'', ''natural_feature''],
        mood_keywords = [''outdoor'', ''nature'', ''hiking'', ''trail'', ''garden'',
           ''scenic'', ''walking path''],
        description = ''Outdoor activities'',
        preferredPrice = Some [0, 1],
        prioritizeRating = False\<rparr>),
      (''nature'',
       \<lparr>types = [''park'', ''campground''],
        mood_keywords = [''nature'', ''garden'', ''botanical'', ''wildlife'', ''scenic'',
           ''green space''],
        description = ''Natural spaces'',
        preferredPrice = Some [0, 1],
        prioritizeRating = False\<rparr>),
      (''picnic'',
       \<lparr>types = [''park''],
        mood_keywords = [''picnic'', ''garden'', ''outdoor'', ''lawn'', ''green space'',
           ''public park''],
        description = ''Picnic spots'',
        preferredPrice = Some [0],
        prioritizeRating = False\<rparr>),
      (''fitness'',
       \<lparr>types = [''gym'', ''park''],
        mood_keywords = [''fitness'', ''workout'', ''exercise'', ''training'', ''crossfit'',
           ''gym near me''],
        description = ''Fitness facilities'',
        preferredPrice = Some [1, 2, 3],
        prioritizeRating = True\<rparr>),
      (''gym'',
       \<lparr>types = [''gym''],
        mood_keywords = [''gym'', ''fitness center'', ''workout'', ''health club'',
           ''24 hour gym''],
        description = ''Gyms and fitness centers'',
        preferredPrice = Some [1, 2, 3],
        prioritizeRating = True\<rparr>),
      (''yoga'',
       \<lparr>types = [''gym'', ''spa''],
        mood_keywords = [''yoga'', ''pilates'', ''meditation'', ''yoga studio'', ''wellness''],
        description = ''Yoga and wellness studios'',
        preferredPrice = Some [2, 3],
        prioritizeRating = True\<rparr>),
      (''entertainment'',
       \<lparr>types = [''movie_theater'', ''bowling_alley'', ''amusement_park'', ''casino''],
        mood_keywords = [''entertainment'', ''fun'', ''games'', ''arcade'', ''bowling'',
           ''escape room'', ''karaoke''],
        description = ''Entertainment venues'',
        preferredPrice = Some [2, 3],
        prioritizeRating = True\<rparr>),
      (''movies'',
       \<lparr>types = [''movie_theater''],
        mood_keywords = [''cinema'', ''movie'', ''film'', ''theater'', ''imax'',
           ''movie theatre''],
        description = ''Movie theaters'',
        preferredPrice = Some [2],
        prioritizeRating = True\<rparr>),
      (''culture'',
       \<lparr>types = [''museum'', ''art_gallery'', ''library''],
        mood_keywords = [''museum'', ''art'', ''culture'', ''history'', ''exhibition'',
           ''gallery''],
        description = ''Cultural attractions'',
        preferredPrice = Some [1, 2],
        prioritizeRating = True\<rparr>),
      (''art'',
       \<lparr>types = [''art_gallery'', ''museum''],
        mood_keywords = [''art'', ''gallery'', ''exhibition'', ''contemporary art'',
           ''art museum''],
        description = ''Art venues'',
        preferredPrice = Some [1, 2],
        prioritizeRating = True\<rparr>),
      (''music'',
       \<lparr>types = [''bar'', ''night_club''],
        mood_keywords = [''live music'', ''concert'', ''jazz'', ''music venue'', ''live band'',
           ''open mic''],
        description = ''Live music venues'',
        preferredPrice = Some [2, 3],
        prioritizeRating = True\<rparr>),
      (''shopping'',
       \<lparr>types = [''shopping_mall'', ''department_store'', ''clothing_store''],
        mood_keywords = [''shopping'', ''mall'', ''retail'', ''boutique'', ''shopping center'',
           ''stores''],
        description = ''Shopping destinations'',
        preferredPrice = Some [1, 2, 3],
        prioritizeRating = False\<rparr>),
      (''groceries'',
       \<lparr>types = [''supermarket'', ''grocery_or_supermarket''],
        mood_keywords = [''grocery'', ''supermarket'', ''food store'', ''organic'', ''market''],
        description = ''Grocery stores'',
        preferredPrice = Some [1, 2],
        prioritizeRating = False\<rparr>),
      (''gas'',
       \<lparr>types = [''gas_station''],
        mood_keywords = [''gas'', ''fuel'', ''petrol'', ''gas station'', ''fuel station''],
        description = ''Gas stations'',
        preferredPrice = Some [1],
        prioritizeRating = False\<rparr>),
      (''atm'',
       \<lparr>types = [''atm'', ''bank''],
        mood_keywords = [''atm'', ''bank'', ''cash'', ''withdrawal''],
        description = ''ATMs and banks'',
        preferredPrice = Some [0],
        prioritizeRating = False\<rparr>),
      (''pharmacy'',
       \<lparr>types = [''pharmacy'', ''drugstore''],
        mood_keywords = [''pharmacy'', ''drugstore'', ''medicine'', ''prescription''],
        description = ''Pharmacies'',
        preferredPrice = Some [1, 2],
        prioritizeRating = False\<rparr>)]"

text \<open>
  What \<open>moodMappings[key]\<close> can evaluate to: a mood mapping of the table, the value of
  a property that the table inherits from \<open>Object.prototype\<close> (a function, or for
  \<open>__proto__\<close> the prototype itself: a truthy value without \<open>types\<close> or
  \<open>keywords\<close>), or \<open>undefined\<close>.
\<close>

datatype mood_value = MoodMapping mood_mapping | Inherited string | Undefined

definition object_prototype_properties :: "string list" where
  "object_prototype_properties =
     [''constructor'', ''__defineGetter__'', ''__defineSetter__'', ''hasOwnProperty'',
      ''__lookupGetter__'', ''__lookupSetter__'', ''isPrototypeOf'',
      ''propertyIsEnumerable'', ''toString'', ''valueOf'', ''__proto__'',
      ''toLocaleString'']"

text \<open>Property access \<open>obj[key]\<close>: an own property first, then the prototype.\<close>

definition get_property :: "(string \<times> mood_mapping) list \<Rightarrow> string \<Rightarrow> mood_value" where
  "get_property obj key =
     (case map_of obj key of
        Some m \<Rightarrow> MoodMapping m
      | None \<Rightarrow> if key \<in> set object_prototype_properties then Inherited key else Undefined)"

text \<open>\<open>xs.indexOf(x)\<close>, with \<open>None\<close> for -1.\<close>

fun indexOf :: "'a list \<Rightarrow> 'a \<Rightarrow> nat option" where
  "indexOf [] x = None"
| "indexOf (y # ys) x = (if y = x then Some 0 else map_option Suc (indexOf ys x))"

definition fallback_mapping :: "string \<Rightarrow> mood_mapping" where
  "fallback_mapping normalizedMood =
     \<lparr>types = [''restaurant'', ''cafe''],
      mood_keywords = [normalizedMood],
      description = ''General search'',
      preferredPrice = Some [1, 2, 3],
      prioritizeRating = True\<rparr>"

definition normalize_mood :: "string \<Rightarrow> string" where
  "normalize_mood mood = hyphens_to_spaces (trim (toLowerCase mood))"

definition partial_match :: "string \<Rightarrow> string \<Rightarrow> bool" where
  "partial_match normalizedMood key =
     (let normalizedKey = hyphens_to_spaces key
      in str_includes normalizedKey normalizedMood \<or> str_includes normalizedMood normalizedKey)"

definition keyword_match :: "string \<Rightarrow> string \<times> mood_mapping \<Rightarrow> bool" where
  "keyword_match normalizedMood entry =
     list_ex (\<lambda>keyword. str_includes keyword normalizedMood \<or> str_includes normalizedMood keyword)
       (mood_keywords (snd entry))"

definition keyword_or_fallback :: "(string \<times> mood_mapping) list \<Rightarrow> string \<Rightarrow> mood_value" where
  "keyword_or_fallback table normalizedMood =
     (case find (keyword_match normalizedMood) table of
        Some (key, mapping) \<Rightarrow> MoodMapping mapping
      | None \<Rightarrow> MoodMapping (fallback_mapping normalizedMood))"

definition getMoodMapping_in :: "(string \<times> mood_mapping) list \<Rightarrow> string \<Rightarrow> mood_value" where
  "getMoodMapping_in table mood =
     (let normalizedMood = normalize_mood mood
      in if get_property table normalizedMood \<noteq> Undefined
         then get_property table normalizedMood
         else
           (let normalizedKeys = map (\<lambda>k. hyphens_to_spaces k) (map fst table)
            in case indexOf normalizedKeys normalizedMood of
                 Some directIndex \<Rightarrow> MoodMapping (map snd table ! directIndex)
               | None \<Rightarrow>
                   (case find (partial_match normalizedMood) (map fst table) of
                      Some partialMatch \<Rightarrow>
                        (if partialMatch \<noteq> [] then get_property table partialMatch
                         else keyword_or_fallback table normalizedMood)
                    | None \<Rightarrow> keyword_or_fallback table normalizedMood)))"

definition getMoodMapping :: "string \<Rightarrow> mood_value" where
  "getMoodMapping mood = getMoodMapping_in moodMappings mood"

section \<open>The details cache (placesApi.js, getPlaceDetails)\<close>

text \<open>
  \<open>detailsCache\<close> maps a place id to the cached record and the time it was stored.
  The state also logs the \<open>getDetails\<close> requests sent to the provider. A call of
  \<open>getPlaceDetails\<close> at time \<open>now\<close> returns a promise that is already resolved (a
  cache hit) or rejected (the API is not loaded), or sends the request; the provider's
  answer arrives later in the callback, at its own time.
\<close>

record cache_entry =
  data :: place
  timestamp :: int

definition CACHE_DURATION :: int where
  "CACHE_DURATION = 5 * 60 * 1000"

record details_state =
  detailsCache :: "string \<rightharpoonup> cache_entry"
  details_requests :: "string list"

datatype details_promise = Resolved place | Rejected string | Pending

definition getPlaceDetails ::
  "bool \<Rightarrow> details_state \<Rightarrow> string \<Rightarrow> int \<Rightarrow> details_state \<times> details_promise" where
  "getPlaceDetails loaded st placeId now =
     (case detailsCache st placeId of
        Some cached \<Rightarrow>
          if now - timestamp cached < CACHE_DURATION then (st, Resolved (data cached))
          else if \<not> loaded then (st, Rejected api_not_loaded)
          else (st\<lparr>details_requests := details_requests st @ [placeId]\<rparr>, Pending)
      | None \<Rightarrow>
          if \<not> loaded then (st, Rejected api_not_loaded)
          else (st\<lparr>details_requests := details_requests st @ [placeId]\<rparr>, Pending))"

text \<open>The callback of \<open>service.getDetails\<close> for the request of \<open>placeId\<close>, run at
  time \<open>now\<close> with the provider's result and status.\<close>

definition getDetails_callback ::
  "details_state \<Rightarrow> string \<Rightarrow> place \<Rightarrow> string \<Rightarrow> int \<Rightarrow> details_state \<times> details_promise" where
  "getDetails_callback st placeId result status now =
     (if status = ''OK''
      then (st\<lparr>detailsCache := (detailsCache st)(placeId \<mapsto> \<lparr>data = result, timestamp = now\<rparr>)\<rparr>,
            Resolved result)
      else (st, Rejected (''Place details request failed: '' @ status)))"

definition clearDetailsCache :: "details_state \<Rightarrow> details_state" where
  "clearDetailsCache st = st\<lparr>detailsCache := Map.empty\<rparr>"

text \<open>What can happen to the cache between two calls: calls for any id, and answers of
  the provider to earlier requests.\<close>

datatype details_event =
  Call bool string int
| Answer string place string int

fun details_step :: "details_state \<Rightarrow> details_event \<Rightarrow> details_state" where
  "details_step st (Call loaded placeId now) = fst (getPlaceDetails loaded st placeId now)"
| "details_step st (Answer placeId result status now) =
     fst (getDetails_callback st placeId result status now)"

text \<open>An event that is not a successful answer for the given id.\<close>

fun other_than :: "string \<Rightarrow> details_event \<Rightarrow> bool" where
  "other_than placeId (Call loaded i now) = True"
| "other_than placeId (Answer i result status now) = (i \<noteq> placeId \<or> status \<noteq> ''OK'')"

definition empty_details :: details_state where
  "empty_details = \<lparr>detailsCache = Map.empty, details_requests = []\<rparr>"

section \<open>The search session (usePlaces.js, searchByMood)\<close>

text \<open>
  The state of the hook. \<open>searchAbortRef.current\<close> refers to the abort object of the
  latest search; the abort objects \<open>{ abort: ... }\<close> created so far are kept in a list
  and a reference is an index into it.
\<close>

record hook_state =
  places :: "place list"
  filteredPlaces :: "place list"
  selectedPlace :: "place option"
  placeDetails :: "place option"
  loading :: bool
  error :: "string option"
  currentMood :: "string option"
  currentMoodMapping :: "mood_value option"
  filters_now :: filters
  sortBy_now :: string
  searchAbortRef :: "nat option"
  abort_objects :: "bool list"

definition SEARCH_RADIUS_DEFAULT :: real where
  "SEARCH_RADIUS_DEFAULT = 2000"

definition MAX_RESULTS :: nat where
  "MAX_RESULTS = 20"

definition DEFAULT_FILTERS :: filters where
  "DEFAULT_FILTERS =
     \<lparr>minRating = 0, maxDistance = Some 5000, openNow = False, priceLevel = PriceNull,
      filter_types = None, searchQuery = []\<rparr>"

definition initial_hook :: hook_state where
  "initial_hook =
     \<lparr>places = [], filteredPlaces = [], selectedPlace = None, placeDetails = None,
      loading = False, error = None, currentMood = None, currentMoodMapping = None,
      filters_now = DEFAULT_FILTERS, sortBy_now = SORT_BEST_MATCH,
      searchAbortRef = None, abort_objects = []\<rparr>"

text \<open>\<open>currentSearch.abort\<close> for the abort object with the given reference.\<close>

definition aborted :: "hook_state \<Rightarrow> nat \<Rightarrow> bool" where
  "aborted st r = (r < length (abort_objects st) \<and> abort_objects st ! r)"

text \<open>
  What a search keeps across its \<open>await\<close>: its own abort object, the mood mapping, the
  location, and the filters and sort option of the render that created the callback.
\<close>

record pending_search =
  currentSearch :: nat
  search_mapping :: mood_value
  search_location :: latlng
  captured_filters :: filters
  captured_sortBy :: string

text \<open>The catch block, and the finally block, of \<open>searchByMood\<close>.\<close>

definition search_failed :: "hook_state \<Rightarrow> nat \<Rightarrow> string \<Rightarrow> hook_state" where
  "search_failed st cur err =
     (if \<not> aborted st cur
      then st\<lparr>error := Some err, places := [], filteredPlaces := [], loading := False\<rparr>
      else st)"

text \<open>
  \<open>searchByMood\<close> up to its \<open>await\<close>: without a location it only sets the error.
  Otherwise it marks the abort object of the previous search, creates its own, resets
  the state, and either fails at once (no places service) or waits for the aggregation.
\<close>

definition searchByMood ::
  "hook_state \<Rightarrow> string \<Rightarrow> latlng option \<Rightarrow> bool \<Rightarrow> hook_state \<times> pending_search option" where
  "searchByMood st mood location service_ok =
     (case location of
        None \<Rightarrow> (st\<lparr>error := Some ''Location is required for search''\<rparr>, None)
      | Some loc \<Rightarrow>
          (let objs = (case searchAbortRef st of
                         None \<Rightarrow> abort_objects st
                       | Some previous \<Rightarrow> (abort_objects st)[previous := True]);
               cur = length objs;
               st1 = st\<lparr>abort_objects := objs @ [False], searchAbortRef := Some cur,
                         loading := True, error := None, currentMood := Some mood,
                         selectedPlace := None, placeDetails := None\<rparr>
           in if \<not> service_ok
              then (search_failed st1 cur ''Places service not initialized'', None)
              else
                (let mm = getMoodMapping mood
                 in (st1\<lparr>currentMoodMapping := Some mm\<rparr>,
                     Some \<lparr>currentSearch = cur, search_mapping = mm, search_location = loc,
                           captured_filters = filters_now st,
                           captured_sortBy = sortBy_now st\<rparr>))))"

text \<open>\<open>moodMapping.types\<close> and \<open>moodMapping.keywords\<close>: undefined unless the value
  is a mood mapping.\<close>

definition types_of :: "mood_value \<Rightarrow> string list option" where
  "types_of v = (case v of MoodMapping m \<Rightarrow> Some (types m) | _ \<Rightarrow> None)"

definition keywords_of :: "mood_value \<Rightarrow> string list option" where
  "keywords_of v = (case v of MoodMapping m \<Rightarrow> Some (mood_keywords m) | _ \<Rightarrow> None)"

text \<open>
  \<open>results.map(place => ({...place, relevanceScore: ...}))\<close>, the limit, and the filter
  and sort. For a value without \<open>types\<close> the scoring of a place throws.
\<close>

definition publish_results ::
  "hook_state \<Rightarrow> pending_search \<Rightarrow> place list \<Rightarrow> hook_state" where
  "publish_results st p results =
     (case search_mapping p of
        MoodMapping m \<Rightarrow>
          (let placesWithScores =
                 map (\<lambda>pl. pl\<lparr>relevanceScore := Some (calculateRelevanceScore pl m)\<rparr>) results;
               limitedResults = take MAX_RESULTS placesWithScores;
               processed = filterAndSortPlaces limitedResults (captured_filters p)
                             (captured_sortBy p) (Some m)
           in st\<lparr>places := limitedResults, filteredPlaces := processed, loading := False\<rparr>)
      | _ \<Rightarrow>
          (if results = []
           then st\<lparr>places := [], filteredPlaces := [], loading := False\<rparr>
           else search_failed st (currentSearch p) ''TypeError: moodMapping.types is undefined''))"

text \<open>
  \<open>searchByMood\<close> after its \<open>await\<close>, when the aggregation has settled with the
  answers of the provider.
\<close>

definition searchByMood_resume ::
  "provider \<Rightarrow> (latlng \<Rightarrow> latlng \<Rightarrow> real) \<Rightarrow> hook_state \<Rightarrow> pending_search \<Rightarrow> hook_state" where
  "searchByMood_resume pr calculateDistance st p =
     (case searchMultipleTypes pr calculateDistance (types_of (search_mapping p))
             (keywords_of (search_mapping p)) (search_location p) (Some SEARCH_RADIUS_DEFAULT) of
        Inr results \<Rightarrow>
          if aborted st (currentSearch p) then st else publish_results st p results
      | Inl err \<Rightarrow> search_failed st (currentSearch p) err)"

text \<open>
  The hook with the searches that still wait for the provider. A search is started, or
  the answer for one of the waiting searches arrives.
\<close>

record session_state =
  hook :: hook_state
  awaiting :: "pending_search list"

datatype session_event =
  StartSearch string "latlng option" bool
| Arrive nat provider

fun session_step ::
  "(latlng \<Rightarrow> latlng \<Rightarrow> real) \<Rightarrow> session_state \<Rightarrow> session_event \<Rightarrow> session_state" where
  "session_step calculateDistance s (StartSearch mood location service_ok) =
     (case searchByMood (hook s) mood location service_ok of
        (st, None) \<Rightarrow> s\<lparr>hook := st\<rparr>
      | (st, Some p) \<Rightarrow> \<lparr>hook = st, awaiting = awaiting s @ [p]\<rparr>)"
| "session_step calculateDistance s (Arrive k pr) =
     (if k < length (awaiting s)
      then \<lparr>hook = searchByMood_resume pr calculateDistance (hook s) (awaiting s ! k),
            awaiting = take k (awaiting s) @ drop (Suc k) (awaiting s)\<rparr>
      else s)"

definition session_run ::
  "(latlng \<Rightarrow> latlng \<Rightarrow> real) \<Rightarrow> session_state \<Rightarrow> session_event list \<Rightarrow> session_state" where
  "session_run calculateDistance s evs = foldl (session_step calculateDistance) s evs"

definition initial_session :: session_state where
  "initial_session = \<lparr>hook = initial_hook, awaiting = []\<rparr>"

text \<open>Every abort object except the one that \<open>searchAbortRef\<close> refers to is marked,
  and that one is not.\<close>

definition only_current_live :: "hook_state \<Rightarrow> bool" where
  "only_current_live st =
     ((\<forall>r. searchAbortRef st = Some r \<longrightarrow>
          r < length (abort_objects st) \<and> \<not> abort_objects st ! r) \<and>
      (\<forall>n < length (abort_objects st). searchAbortRef st \<noteq> Some n \<longrightarrow> abort_objects st ! n))"

text \<open>An event that starts no search: an answer, or a call without a location.\<close>

fun is_arrival :: "session_event \<Rightarrow> bool" where
  "is_arrival (Arrive k pr) = True"
| "is_arrival (StartSearch mood location ok) = (location = None)"

text \<open>
  An example run: a search for coffee is started, then a search for work while the first
  one waits, and the answer for the second search arrives.
\<close>

definition coffee_search :: pending_search where
  "coffee_search =
     \<lparr>currentSearch = 0, search_mapping = getMoodMapping ''coffee'', search_location = (0, 0),
      captured_filters = DEFAULT_FILTERS, captured_sortBy = SORT_BEST_MATCH\<rparr>"

definition two_searches :: session_state where
  "two_searches =
     session_run sample_distance
       (session_step sample_distance initial_session (StartSearch ''coffee'' (Some (0, 0)) True))
       ([] @ StartSearch ''work'' (Some (0, 0)) True # [Arrive 1 sample_provider])"

definition cafe_details :: place where
  "cafe_details = (typed_place ''A'' [''cafe''])\<lparr>name := Some ''Cafe A''\<rparr>"


section \<open>Properties of the relevance score\<close>

lemma matchingTypes_disjoint:
  "set (placeTypes_of p) \<inter> set (types m) = {} \<Longrightarrow> matchingTypes p m = []"
  by (auto simp: matchingTypes_def filter_empty_conv)

text \<open>
  C1. The relevance score is an integer between 0 and 100 for every candidate and
  profile, and a candidate without price level, rating, rating count, open-now flag and
  distance whose types share nothing with the profile's types scores the base value 40.
\<close>

theorem calculateRelevanceScore_range_and_base:
  "0 \<le> calculateRelevanceScore p m \<and> calculateRelevanceScore p m \<le> 100 \<and>
   (price_level p = None \<and> rating p = None \<and> user_ratings_total p = None \<and>
    \<not> is_open_now p \<and> distance p = None \<and>
    set (placeTypes_of p) \<inter> set (types m) = {}
    \<longrightarrow> calculateRelevanceScore p m = 40)"
proof -
  have range: "0 \<le> calculateRelevanceScore p m \<and> calculateRelevanceScore p m \<le> 100"
    by (simp add: calculateRelevanceScore_def Let_def)
  have base: "calculateRelevanceScore p m = 40"
    if "price_level p = None" "rating p = None" "user_ratings_total p = None"
       "\<not> is_open_now p" "distance p = None"
       "set (placeTypes_of p) \<inter> set (types m) = {}"
  proof -
    have "type_match_bonus p m = 0"
      using that(6) by (simp add: type_match_bonus_def matchingTypes_disjoint)
    then show ?thesis
      using that
      by (simp add: calculateRelevanceScore_def Let_def price_match_def rating_bonus_def
          ratings_count_bonus_def open_now_bonus_def distance_adjust_def js_round_def)
  qed
  from range base show ?thesis by blast
qed

theorem calculateRelevanceScore_range_and_base_witness:
  "calculateRelevanceScore (typed_place ''p1'' [''park'']) breakfast_mapping = 40 \<and>
   0 \<le> calculateRelevanceScore (typed_place ''p1'' [''park'']) breakfast_mapping"
  using calculateRelevanceScore_range_and_base
    [of "typed_place ''p1'' [''park'']" breakfast_mapping]
  by (simp add: typed_place_def bare_place_def breakfast_mapping_def placeTypes_of_def
      is_open_now_def)

text \<open>The score is the clamped, rounded sum of the base value and the six adjustments.\<close>

lemma calculateRelevanceScore_sum:
  "calculateRelevanceScore p m =
     max 0 (min (js_round (40 + type_match_bonus p m + price_match p m + rating_bonus p m
                            + ratings_count_bonus p + open_now_bonus p + distance_adjust p))
              100)"
  by (simp add: calculateRelevanceScore_def Let_def)

lemma matchingTypes_length:
  "distinct (placeTypes_of p) \<Longrightarrow>
   length (matchingTypes p m) = card (set (placeTypes_of p) \<inter> set (types m))"
  by (simp add: matchingTypes_def distinct_length_filter Int_commute Collect_mem_eq)

text \<open>
  C2 (as amended). Every type of the candidate that occurs among the profile's types
  adds 10, the primary type included, and a candidate that has the profile's primary
  (first) type gets 20 on top of that: for a candidate whose types are listed once each,
  the adjustment is 20 (if the primary type is matched) plus 10 for each type in the
  intersection. A match of the primary type alone adds 30, and a match of the primary
  and one secondary type adds 40.
\<close>

theorem type_match_bonus_amended:
  assumes "types m = primaryType # rest" and "distinct (placeTypes_of p)"
  shows "type_match_bonus p m =
           (if primaryType \<in> set (placeTypes_of p) then 20 else 0)
           + 10 * real (card (set (placeTypes_of p) \<inter> set (types m))) \<and>
         (set (placeTypes_of p) \<inter> set (types m) = {primaryType} \<longrightarrow>
           type_match_bonus p m = 30) \<and>
         (secondary \<noteq> primaryType \<and>
          set (placeTypes_of p) \<inter> set (types m) = {primaryType, secondary} \<longrightarrow>
           type_match_bonus p m = 40)"
proof -
  have len: "length (matchingTypes p m) = card (set (placeTypes_of p) \<inter> set (types m))"
    using assms(2) by (rule matchingTypes_length)
  have general: "type_match_bonus p m =
           (if primaryType \<in> set (placeTypes_of p) then 20 else 0)
           + 10 * real (card (set (placeTypes_of p) \<inter> set (types m)))"
    using assms(1) by (simp add: type_match_bonus_def len)
  have one: "type_match_bonus p m = 30"
    if "set (placeTypes_of p) \<inter> set (types m) = {primaryType}"
  proof -
    have "primaryType \<in> set (placeTypes_of p)" using that by blast
    then show ?thesis using general that by simp
  qed
  have two: "type_match_bonus p m = 40"
    if "secondary \<noteq> primaryType"
      and "set (placeTypes_of p) \<inter> set (types m) = {primaryType, secondary}"
  proof -
    have "primaryType \<in> set (placeTypes_of p)" using that(2) by blast
    then show ?thesis using general that by simp
  qed
  from general one two show ?thesis by blast
qed

theorem type_match_bonus_amended_witness:
  "type_match_bonus (typed_place ''p1'' [''cafe'', ''park'']) breakfast_mapping = 30 \<and>
   type_match_bonus (typed_place ''p1'' [''bakery'', ''cafe'']) breakfast_mapping = 40"
proof -
  have t: "types breakfast_mapping = ''cafe'' # [''bakery'', ''restaurant'']"
    by (simp add: breakfast_mapping_def)
  have d1: "distinct (placeTypes_of (typed_place ''p1'' [''cafe'', ''park'']))"
    by (simp add: typed_place_def bare_place_def placeTypes_of_def)
  have d2: "distinct (placeTypes_of (typed_place ''p1'' [''bakery'', ''cafe'']))"
    by (simp add: typed_place_def bare_place_def placeTypes_of_def)
  have i1: "set (placeTypes_of (typed_place ''p1'' [''cafe'', ''park'']))
              \<inter> set (types breakfast_mapping) = {''cafe''}"
    by (simp add: typed_place_def bare_place_def placeTypes_of_def breakfast_mapping_def)
  have i2: "set (placeTypes_of (typed_place ''p1'' [''bakery'', ''cafe'']))
              \<inter> set (types breakfast_mapping) = {''cafe'', ''bakery''}"
    by (auto simp: typed_place_def bare_place_def placeTypes_of_def breakfast_mapping_def)
  have n: "''bakery'' \<noteq> ''cafe''" by simp
  from type_match_bonus_amended [OF t d1, of "''bakery''"] i1
       type_match_bonus_amended [OF t d2, of "''bakery''"] i2 n
  show ?thesis by simp
qed

text \<open>
  The claim as first stated (20 for the primary type alone, 30 for the primary and one
  secondary type) fails: the adjustments are 30 and 40, and a candidate whose only type
  is the primary one scores 70, not 60.
\<close>

theorem type_match_bonus_counterexample:
  "type_match_bonus (typed_place ''p1'' [''cafe'']) breakfast_mapping \<noteq> 20 \<and>
   type_match_bonus (typed_place ''p1'' [''cafe'', ''bakery'']) breakfast_mapping \<noteq> 30 \<and>
   calculateRelevanceScore (typed_place ''p1'' [''cafe'']) breakfast_mapping = 70"
  by (simp add: type_match_bonus_def matchingTypes_def calculateRelevanceScore_def
      typed_place_def bare_place_def placeTypes_of_def breakfast_mapping_def
      price_match_def rating_bonus_def ratings_count_bonus_def open_now_bonus_def
      distance_adjust_def is_open_now_def js_round_def Let_def)

section \<open>Properties of the filter\<close>

lemma passes_rating_only:
  "passes_filters (rating_only mr) p = (\<not> rating_fails (rating_only mr) p)"
  by (simp add: passes_filters_def rating_only_def distance_fails_def open_now_fails_def
      price_fails_def types_fail_def query_fails_def split: option.splits)

text \<open>
  C5 (as amended). The rating filter excludes a candidate exactly when its rating is
  present, not zero and strictly below \<open>minRating\<close>: such a candidate is excluded
  whatever the other criteria are; with every other criterion at its default the kept
  candidates are exactly the others; a candidate whose rating is missing (or zero, which
  the test \<open>place.rating && ...\<close> treats like a missing one) is never excluded by the
  rating filter.
\<close>

theorem filterPlaces_rating_amended:
  "(\<forall>p r. rating p = Some r \<and> r \<noteq> 0 \<and> r < minRating f
       \<longrightarrow> p \<notin> set (filterPlaces ps f)) \<and>
   filterPlaces ps (rating_only mr) =
     filter (\<lambda>p. \<not> (\<exists>r. rating p = Some r \<and> r \<noteq> 0 \<and> r < mr)) ps \<and>
   (\<forall>p. p \<in> set ps \<and> (rating p = None \<or> rating p = Some 0)
       \<longrightarrow> p \<in> set (filterPlaces ps (rating_only mr)))"
proof -
  have a: "\<forall>p r. rating p = Some r \<and> r \<noteq> 0 \<and> r < minRating f
       \<longrightarrow> p \<notin> set (filterPlaces ps f)"
    by (auto simp: filterPlaces_def passes_filters_def rating_fails_def)
  have eq: "passes_filters (rating_only mr) p
              = (\<not> (\<exists>r. rating p = Some r \<and> r \<noteq> 0 \<and> r < mr))" for p
  proof -
    have "rating_fails (rating_only mr) p = (\<exists>r. rating p = Some r \<and> r \<noteq> 0 \<and> r < mr)"
      by (auto simp: rating_fails_def rating_only_def split: option.splits)
    then show ?thesis by (simp only: passes_rating_only)
  qed
  have b: "filterPlaces ps (rating_only mr) =
     filter (\<lambda>p. \<not> (\<exists>r. rating p = Some r \<and> r \<noteq> 0 \<and> r < mr)) ps"
    unfolding filterPlaces_def using eq by presburger
  have c: "\<forall>p. p \<in> set ps \<and> (rating p = None \<or> rating p = Some 0)
       \<longrightarrow> p \<in> set (filterPlaces ps (rating_only mr))"
    unfolding b by auto
  from a b c show ?thesis by blast
qed

text \<open>The example of the specification: ratings 3.0, 4.5 and none against a floor of 4.0.\<close>

theorem filterPlaces_rating_amended_witness:
  "filterPlaces [rated_place ''a'' 3.0, rated_place ''b'' 4.5, bare_place ''c''] (rating_only 4.0)
     = [rated_place ''b'' 4.5, bare_place ''c'']"
  using filterPlaces_rating_amended
    [of "rating_only 4.0" "[rated_place ''a'' 3.0, rated_place ''b'' 4.5, bare_place ''c'']" "4.0"]
  by (simp add: rated_place_def bare_place_def)

text \<open>
  The claim as first stated fails for a rating of 0, which is present and below the
  floor 4.0, and yet is kept.
\<close>

theorem filterPlaces_rating_zero_counterexample:
  "rating (rated_place ''z'' 0) = Some 0 \<and> 0 < minRating (rating_only 4.0) \<and>
   filterPlaces [rated_place ''z'' 0] (rating_only 4.0) = [rated_place ''z'' 0]"
  by (simp add: filterPlaces_def passes_filters_def rating_fails_def distance_fails_def
      open_now_fails_def price_fails_def types_fail_def query_fails_def
      rating_only_def rated_place_def bare_place_def)


section \<open>Properties of the sort\<close>

lemma set_insert_by: "set (insert_by cmp x xs) = insert x (set xs)"
  by (induction xs) auto

lemma set_js_sort: "set (js_sort cmp xs) = set xs"
  by (induction xs) (simp_all add: js_sort_def set_insert_by)

lemma length_insert_by: "length (insert_by cmp x xs) = Suc (length xs)"
  by (induction xs) auto

lemma length_js_sort: "length (js_sort cmp xs) = length xs"
  by (induction xs) (simp_all add: js_sort_def length_insert_by)

lemma sorted_insert_by:
  assumes total: "\<And>a b. cmp a b \<le> 0 \<or> cmp b a \<le> 0"
    and trans: "\<And>a b c. cmp a b \<le> 0 \<Longrightarrow> cmp b c \<le> 0 \<Longrightarrow> cmp a c \<le> 0"
    and sorted: "sorted_wrt (\<lambda>a b. cmp a b \<le> 0) xs"
  shows "sorted_wrt (\<lambda>a b. cmp a b \<le> 0) (insert_by cmp x xs)"
  using sorted
proof (induction xs)
  case Nil
  then show ?case by simp
next
  case (Cons y ys)
  show ?case
  proof (cases "cmp x y \<le> 0")
    case True
    then have "\<forall>z\<in>set ys. cmp x z \<le> 0"
      using Cons.prems trans by auto
    with True Cons.prems show ?thesis by simp
  next
    case False
    then have yx: "cmp y x \<le> 0" using total [of x y] by simp
    have "sorted_wrt (\<lambda>a b. cmp a b \<le> 0) (insert_by cmp x ys)"
      using Cons by simp
    with False yx Cons.prems show ?thesis
      by (simp add: set_insert_by)
  qed
qed

lemma sorted_js_sort:
  assumes "\<And>a b. cmp a b \<le> 0 \<or> cmp b a \<le> 0"
    and "\<And>a b c. cmp a b \<le> 0 \<Longrightarrow> cmp b c \<le> 0 \<Longrightarrow> cmp a c \<le> 0"
  shows "sorted_wrt (\<lambda>a b. cmp a b \<le> 0) (js_sort cmp xs)"
proof (induction xs)
  case Nil
  then show ?case by (simp add: js_sort_def)
next
  case (Cons x xs)
  have "js_sort cmp (x # xs) = insert_by cmp x (js_sort cmp xs)"
    by (simp add: js_sort_def)
  with Cons sorted_insert_by [of cmp "js_sort cmp xs" x] assms show ?case
    by simp
qed

lemma js_sort_sorted_id:
  "sorted_wrt (\<lambda>a b. cmp a b \<le> 0) xs \<Longrightarrow> js_sort cmp xs = xs"
proof (induction xs)
  case Nil
  then show ?case by (simp add: js_sort_def)
next
  case (Cons x xs)
  then have "js_sort cmp (x # xs) = insert_by cmp x xs"
    by (simp add: js_sort_def)
  with Cons.prems show ?case by (cases xs) simp_all
qed

lemma js_sort_idem:
  assumes "\<And>a b. cmp a b \<le> 0 \<or> cmp b a \<le> 0"
    and "\<And>a b c. cmp a b \<le> 0 \<Longrightarrow> cmp b c \<le> 0 \<Longrightarrow> cmp a c \<le> 0"
  shows "js_sort cmp (js_sort cmp xs) = js_sort cmp xs"
  by (rule js_sort_sorted_id) (rule sorted_js_sort [OF assms])

lemma js_sort_key_idem:
  "js_sort (\<lambda>a b. key a - key b) (js_sort (\<lambda>a b. key a - key b) xs)
     = js_sort (\<lambda>a b. key a - key b) xs"
  by (rule js_sort_idem) auto

lemma compare_nearest_idem:
  "js_sort compare_nearest (js_sort compare_nearest xs) = js_sort compare_nearest xs"
  by (rule js_sort_idem) (auto simp: compare_nearest_def)

lemma compare_highest_rated_idem:
  "js_sort compare_highest_rated (js_sort compare_highest_rated xs)
     = js_sort compare_highest_rated xs"
  by (rule js_sort_idem) (auto simp: compare_highest_rated_def Let_def split: if_splits)

lemma compare_price_low_idem:
  "js_sort compare_price_low (js_sort compare_price_low xs) = js_sort compare_price_low xs"
  by (rule js_sort_idem) (auto simp: compare_price_low_def)

lemma compare_price_high_idem:
  "js_sort compare_price_high (js_sort compare_price_high xs) = js_sort compare_price_high xs"
  by (rule js_sort_idem) (auto simp: compare_price_high_def)

lemma compare_best_match_idem:
  "js_sort (compare_best_match m) (js_sort (compare_best_match m) xs)
     = js_sort (compare_best_match m) xs"
  by (rule js_sort_idem) (auto simp: compare_best_match_def)

lemma sortPlaces_idem:
  "sortPlaces (sortPlaces ps s m) s m = sortPlaces ps s m"
  by (simp add: sortPlaces_def compare_nearest_idem compare_highest_rated_idem
      compare_price_low_idem compare_price_high_idem compare_best_match_idem)

lemma set_sortPlaces: "set (sortPlaces ps s m) = set ps"
  by (simp add: sortPlaces_def set_js_sort)

lemma filterPlaces_sorted_id:
  "filterPlaces (sortPlaces (filterPlaces ps f) s m) f = sortPlaces (filterPlaces ps f) s m"
  by (simp add: filterPlaces_def set_sortPlaces)

text \<open>
  C9. \<open>filterAndSortPlaces\<close> is idempotent: applied to its own output with the same
  criteria, sort option and mood mapping it returns that output unchanged.
\<close>

theorem filterAndSortPlaces_idempotent:
  "filterAndSortPlaces (filterAndSortPlaces ps f s m) f s m = filterAndSortPlaces ps f s m"
  by (simp add: filterAndSortPlaces_def filterPlaces_sorted_id sortPlaces_idem)


theorem filterAndSortPlaces_idempotent_witness:
  "filterAndSortPlaces
     (filterAndSortPlaces [rated_place ''a'' 3.0, rated_place ''b'' 4.5, rated_place ''c'' 5]
        (rating_only 4.0) SORT_HIGHEST_RATED None)
     (rating_only 4.0) SORT_HIGHEST_RATED None
   = [rated_place ''c'' 5, rated_place ''b'' 4.5]"
  using filterAndSortPlaces_idempotent
    [of "[rated_place ''a'' 3.0, rated_place ''b'' 4.5, rated_place ''c'' 5]"
        "rating_only 4.0" SORT_HIGHEST_RATED None]
  by (simp add: filterAndSortPlaces_def filterPlaces_def passes_filters_def rating_fails_def
      distance_fails_def open_now_fails_def price_fails_def types_fail_def query_fails_def
      rating_only_def rated_place_def bare_place_def sortPlaces_def js_sort_def
      compare_highest_rated_def or_zero_def Let_def
      SORT_NEAREST_def SORT_HIGHEST_RATED_def)


section \<open>The composite score of the best-match order\<close>

lemma calculatePlaceScore_formula:
  "distance p \<noteq> Some 0 \<Longrightarrow>
   calculatePlaceScore p moodMapping =
     (case moodMapping of None \<Rightarrow> 0
      | Some m \<Rightarrow> 0.3 * real_of_int (calculateRelevanceScore p m))
     + (case rating p of None \<Rightarrow> 0 | Some r \<Rightarrow> 25 * (r / 5))
     + (case user_ratings_total p of None \<Rightarrow> 0 | Some n \<Rightarrow> min (n / 500) 1 * 15)
     + (case distance p of None \<Rightarrow> 0 | Some d \<Rightarrow> max 0 (20 - d / 500))
     + (if is_open_now p then 10 else 0)"
  by (simp add: calculatePlaceScore_def Let_def split: option.splits)

lemma sortPlaces_best_match_descending:
  "sortBy \<notin> {SORT_NEAREST, SORT_HIGHEST_RATED, SORT_PRICE_LOW, SORT_PRICE_HIGH} \<Longrightarrow>
   sorted_wrt (\<lambda>a b. calculatePlaceScore a m \<ge> calculatePlaceScore b m)
     (sortPlaces ps sortBy m)"
proof -
  have "sorted_wrt (\<lambda>a b. compare_best_match m a b \<le> 0) (js_sort (compare_best_match m) ps)"
    by (rule sorted_js_sort) (auto simp: compare_best_match_def)
  moreover assume "sortBy \<notin> {SORT_NEAREST, SORT_HIGHEST_RATED, SORT_PRICE_LOW, SORT_PRICE_HIGH}"
  ultimately show ?thesis
    by (simp add: sortPlaces_def compare_best_match_def)
qed

text \<open>
  C7. The composite score of \<open>calculatePlaceScore\<close> adds the distance component
  only under the test \<open>if (place.distance)\<close>, which is false for a distance of 0. A
  candidate at distance 0 gets no distance points (the claim gives it 20) and is ordered
  after a candidate 5000 m away.
\<close>

theorem calculatePlaceScore_distance_zero:
  "calculatePlaceScore (distant_place ''here'' 0) None = 0 \<and>
   calculatePlaceScore (distant_place ''far'' 5000) None = 10 \<and>
   sortPlaces [distant_place ''here'' 0, distant_place ''far'' 5000] SORT_BEST_MATCH None
     = [distant_place ''far'' 5000, distant_place ''here'' 0]"
  by (simp add: calculatePlaceScore_def sortPlaces_def js_sort_def compare_best_match_def
      distant_place_def bare_place_def is_open_now_def Let_def
      SORT_BEST_MATCH_def SORT_NEAREST_def SORT_HIGHEST_RATED_def SORT_PRICE_LOW_def
      SORT_PRICE_HIGH_def)


section \<open>Properties of the aggregation\<close>

lemma find_snoc:
  "find P (xs @ [x]) = (case find P xs of None \<Rightarrow> (if P x then Some x else None) | Some y \<Rightarrow> Some y)"
  by (induction xs) auto

lemma foldl_add_result_invariant:
  "(\<forall>e\<in>set (foldl add_result [] ps). fst e = place_id (snd e)) \<and>
   distinct (map fst (foldl add_result [] ps)) \<and>
   fst ` set (foldl add_result [] ps) = place_id ` set ps \<and>
   (\<forall>e\<in>set (foldl add_result [] ps).
      find (\<lambda>q. place_id q = fst e) ps = Some (snd e))"
proof (induction ps rule: rev_induct)
  case Nil
  then show ?case by simp
next
  case (snoc x xs)
  define r where "r = foldl add_result [] xs"
  have i1: "\<forall>e\<in>set r. fst e = place_id (snd e)"
    and i2: "distinct (map fst r)"
    and i3: "fst ` set r = place_id ` set xs"
    and i4: "\<forall>e\<in>set r. find (\<lambda>q. place_id q = fst e) xs = Some (snd e)"
    using snoc unfolding r_def by blast+
  have step: "foldl add_result [] (xs @ [x]) = add_result r x"
    by (simp add: r_def)
  show ?case
  proof (cases "place_id x \<in> fst ` set r")
    case True
    then have eq: "add_result r x = r"
      by (simp add: add_result_def)
    have "fst ` set r = place_id ` set (xs @ [x])"
      using True i3 by auto
    moreover have "\<forall>e\<in>set r. find (\<lambda>q. place_id q = fst e) (xs @ [x]) = Some (snd e)"
      using i4 by (simp add: find_snoc)
    ultimately show ?thesis
      unfolding step eq using i1 i2 by blast
  next
    case False
    then have eq: "add_result r x = r @ [(place_id x, x)]"
      by (simp add: add_result_def)
    have nofind: "find (\<lambda>q. place_id q = place_id x) xs = None"
    proof -
      have "place_id x \<notin> place_id ` set xs" using False i3 by simp
      then have "\<not> (\<exists>q. q \<in> set xs \<and> place_id q = place_id x)" by (metis imageI)
      then show ?thesis by (simp add: find_None_iff)
    qed
    have "\<forall>e\<in>set (r @ [(place_id x, x)]). fst e = place_id (snd e)"
      using i1 by simp
    moreover have "distinct (map fst (r @ [(place_id x, x)]))"
      using i2 False by simp
    moreover have "fst ` set (r @ [(place_id x, x)]) = place_id ` set (xs @ [x])"
      using i3 by simp
    moreover have "\<forall>e\<in>set (r @ [(place_id x, x)]).
        find (\<lambda>q. place_id q = fst e) (xs @ [x]) = Some (snd e)"
      using i4 nofind by (simp add: find_snoc)
    ultimately show ?thesis
      unfolding step eq by blast
  qed
qed

lemma deduplicate_properties:
  "distinct (map place_id (deduplicate results)) \<and>
   place_id ` set (deduplicate results) = place_id ` set (concat results) \<and>
   (\<forall>p\<in>set (deduplicate results).
      find (\<lambda>q. place_id q = place_id p) (concat results) = Some p)"
proof -
  define r where "r = foldl add_result [] (concat results)"
  have i1: "\<forall>e\<in>set r. fst e = place_id (snd e)"
    and i2: "distinct (map fst r)"
    and i3: "fst ` set r = place_id ` set (concat results)"
    and i4: "\<forall>e\<in>set r. find (\<lambda>q. place_id q = fst e) (concat results) = Some (snd e)"
    using foldl_add_result_invariant [of "concat results"] unfolding r_def by blast+
  have keys: "map fst r = map place_id (map snd r)"
    using i1 by simp
  have d: "deduplicate results = map snd r"
    by (simp add: deduplicate_def r_def)
  have "distinct (map place_id (map snd r))"
    using i2 keys by simp
  moreover have "place_id ` set (map snd r) = place_id ` set (concat results)"
    using i3 keys by (metis list.set_map)
  moreover have "\<forall>p\<in>set (map snd r).
      find (\<lambda>q. place_id q = place_id p) (concat results) = Some p"
    using i1 i4 by auto
  ultimately show ?thesis unfolding d by blast
qed

text \<open>
  C4. The merged output of \<open>searchMultipleTypes\<close> contains each \<open>place_id\<close> at
  most once, it contains every id that some sub-query returned, and the record it keeps
  for an id is the first one with that id in the concatenated sub-query results: later
  duplicates are dropped.
\<close>

theorem searchMultipleTypes_deduplicates:
  assumes "searchMultipleTypes pr calculateDistance (Some ts) ks location radius = Inr merged"
  shows "distinct (map place_id merged) \<and>
   place_id ` set merged =
     place_id ` set (concat (sub_query_results pr calculateDistance ts
        (case ks of None \<Rightarrow> [] | Some ks' \<Rightarrow> ks') location radius)) \<and>
   (\<forall>p\<in>set merged.
      find (\<lambda>q. place_id q = place_id p)
        (concat (sub_query_results pr calculateDistance ts
           (case ks of None \<Rightarrow> [] | Some ks' \<Rightarrow> ks') location radius)) = Some p)"
proof -
  define results where "results = sub_query_results pr calculateDistance ts
        (case ks of None \<Rightarrow> [] | Some ks' \<Rightarrow> ks') location radius"
  have m: "merged = deduplicate results"
    using assms by (simp add: searchMultipleTypes_def results_def)
  show ?thesis
    using deduplicate_properties [of results] unfolding m results_def by blast
qed

text \<open>The cafe ''B'' is returned by the type search and again, with other fields, by the
  keyword search: the first record is kept.\<close>

lemma sample_search:
  "searchMultipleTypes sample_provider sample_distance (Some [''cafe'', ''bar''])
      (Some [''coffee'', ''tea'']) (0, 0) None
    = Inr [with_distance sample_distance (0, 0) (typed_place ''A'' [''cafe'']),
           with_distance sample_distance (0, 0) (typed_place ''B'' [''cafe'']),
           with_distance sample_distance (0, 0) (rated_place ''C'' 4)]"
  by (simp add: searchMultipleTypes_def sub_query_results_def deduplicate_def
      searchNearbyPlaces_def textSearchPlaces_def catch_empty_def nonempty_string_def
      sample_provider_def add_result_def with_distance_def typed_place_def rated_place_def
      bare_place_def)

theorem searchMultipleTypes_deduplicates_witness:
  "searchMultipleTypes sample_provider sample_distance (Some [''cafe'', ''bar''])
      (Some [''coffee'', ''tea'']) (0, 0) None
    = Inr [with_distance sample_distance (0, 0) (typed_place ''A'' [''cafe'']),
           with_distance sample_distance (0, 0) (typed_place ''B'' [''cafe'']),
           with_distance sample_distance (0, 0) (rated_place ''C'' 4)] \<and>
   distinct (map place_id
          [with_distance sample_distance (0, 0) (typed_place ''A'' [''cafe'']),
           with_distance sample_distance (0, 0) (typed_place ''B'' [''cafe'']),
           with_distance sample_distance (0, 0) (rated_place ''C'' 4)]) \<and>
   find (\<lambda>q. place_id q = place_id (with_distance sample_distance (0, 0) (typed_place ''B'' [''cafe''])))
     (concat (sub_query_results sample_provider sample_distance [''cafe'', ''bar'']
        [''coffee'', ''tea''] (0, 0) None))
    = Some (with_distance sample_distance (0, 0) (typed_place ''B'' [''cafe'']))"
  using searchMultipleTypes_deduplicates [OF sample_search] sample_search
  by simp

lemma concat_catch_empty:
  "concat (map catch_empty rs) = concat (List.map_filter resolved_value rs)"
  by (induction rs)
     (auto simp: catch_empty_def resolved_value_def map_filter_simps split: sum.splits)

lemma deduplicate_concat_cong:
  "concat xs = concat ys \<Longrightarrow> deduplicate xs = deduplicate ys"
  by (simp add: deduplicate_def)

lemma sub_query_results_resolved:
  "concat (sub_query_results pr calculateDistance ts ks location radius) =
   concat (List.map_filter resolved_value
             (map (\<lambda>t. searchNearbyPlaces pr calculateDistance location radius (Some t) [] None)
                ts) @
           List.map_filter resolved_value
             (map (\<lambda>k. textSearchPlaces pr calculateDistance k location radius) ks))"
proof -
  have "concat (sub_query_results pr calculateDistance ts ks location radius) =
      concat (map catch_empty
                (map (\<lambda>t. searchNearbyPlaces pr calculateDistance location radius (Some t) []
                         None) ts)) @
      concat (map catch_empty
                (map (\<lambda>k. textSearchPlaces pr calculateDistance k location radius) ks))"
    by (simp add: sub_query_results_def comp_def)
  then show ?thesis
    by (simp only: concat_catch_empty concat_append)
qed

text \<open>
  C3 (as amended). Every failure of a sub-query is swallowed as an empty result, whether
  one sub-query fails or all of them do: given a list of types, \<open>searchMultipleTypes\<close>
  always resolves; its result is the deduplicated concatenation of the results of exactly
  the sub-queries that resolved, in the order of the types and then the keywords, so a
  rejected sub-query takes nothing away from the others; and when every type and keyword
  sub-query fails it resolves with the empty list. No error is surfaced for an
  unavailable provider.
\<close>

theorem searchMultipleTypes_never_rejects:
  "(\<exists>merged. searchMultipleTypes pr calculateDistance (Some ts) ks location radius = Inr merged) \<and>
   searchMultipleTypes pr calculateDistance (Some ts) ks location radius =
     Inr (deduplicate
            (List.map_filter resolved_value
               (map (\<lambda>t. searchNearbyPlaces pr calculateDistance location radius (Some t) []
                        None) ts) @
             List.map_filter resolved_value
               (map (\<lambda>k. textSearchPlaces pr calculateDistance k location radius)
                  (case ks of None \<Rightarrow> [] | Some ks' \<Rightarrow> ks')))) \<and>
   ((\<forall>t\<in>set ts. \<exists>err.
        searchNearbyPlaces pr calculateDistance location radius (Some t) [] None = Inl err) \<and>
    (\<forall>k\<in>set (case ks of None \<Rightarrow> [] | Some ks' \<Rightarrow> ks'). \<exists>err.
        textSearchPlaces pr calculateDistance k location radius = Inl err)
    \<longrightarrow> searchMultipleTypes pr calculateDistance (Some ts) ks location radius = Inr [])"
proof -
  define keywords' where "keywords' = (case ks of None \<Rightarrow> [] | Some ks' \<Rightarrow> ks')"
  have resolves: "searchMultipleTypes pr calculateDistance (Some ts) ks location radius =
      Inr (deduplicate (sub_query_results pr calculateDistance ts keywords' location radius))"
    by (simp add: searchMultipleTypes_def keywords'_def)
  have exact: "deduplicate (sub_query_results pr calculateDistance ts keywords' location radius) =
      deduplicate
        (List.map_filter resolved_value
           (map (\<lambda>t. searchNearbyPlaces pr calculateDistance location radius (Some t) [] None)
              ts) @
         List.map_filter resolved_value
           (map (\<lambda>k. textSearchPlaces pr calculateDistance k location radius) keywords'))"
    by (rule deduplicate_concat_cong) (rule sub_query_results_resolved)
  have "concat (sub_query_results pr calculateDistance ts keywords' location radius) = []"
    if t: "\<forall>t\<in>set ts. \<exists>err.
        searchNearbyPlaces pr calculateDistance location radius (Some t) [] None = Inl err"
      and k: "\<forall>k\<in>set keywords'. \<exists>err.
        textSearchPlaces pr calculateDistance k location radius = Inl err"
  proof -
    have "catch_empty (searchNearbyPlaces pr calculateDistance location radius (Some t) [] None)
            = []" if "t \<in> set ts" for t
      using t that by (auto simp: catch_empty_def)
    moreover have "catch_empty (textSearchPlaces pr calculateDistance k location radius) = []"
      if "k \<in> set keywords'" for k
      using k that by (auto simp: catch_empty_def)
    ultimately show ?thesis
      by (simp add: sub_query_results_def)
  qed
  then have empty: "deduplicate (sub_query_results pr calculateDistance ts keywords' location radius) = []"
    if "\<forall>t\<in>set ts. \<exists>err.
        searchNearbyPlaces pr calculateDistance location radius (Some t) [] None = Inl err"
      and "\<forall>k\<in>set keywords'. \<exists>err.
        textSearchPlaces pr calculateDistance k location radius = Inl err"
    unfolding deduplicate_def using that by (simp del: concat_eq_Nil_conv)
  from resolves exact empty show ?thesis
    unfolding keywords'_def by simp
qed

text \<open>
  With the sample provider the sub-queries for the type bar and the keyword tea bring
  nothing (the first is rejected), and the places of the other two are all returned;
  with the API not loaded every sub-query is rejected and the result is empty.
\<close>

theorem searchMultipleTypes_never_rejects_witness:
  "searchNearbyPlaces sample_provider sample_distance (0, 0) None (Some ''bar'') [] None
     = Inl ''Places search failed: REQUEST_DENIED'' \<and>
   searchMultipleTypes sample_provider sample_distance (Some [''cafe'', ''bar''])
      (Some [''coffee'', ''tea'']) (0, 0) None
    = Inr (deduplicate
        [[with_distance sample_distance (0, 0) (typed_place ''A'' [''cafe'']),
          with_distance sample_distance (0, 0) (typed_place ''B'' [''cafe''])],
         [with_distance sample_distance (0, 0) (rated_place ''B'' 4.5),
          with_distance sample_distance (0, 0) (rated_place ''C'' 4)],
         []]) \<and>
   searchMultipleTypes sample_provider sample_distance (Some [''cafe'', ''bar''])
      (Some [''coffee'', ''tea'']) (0, 0) None
    = Inr [with_distance sample_distance (0, 0) (typed_place ''A'' [''cafe'']),
           with_distance sample_distance (0, 0) (typed_place ''B'' [''cafe'']),
           with_distance sample_distance (0, 0) (rated_place ''C'' 4)] \<and>
   searchNearbyPlaces unloaded_provider sample_distance (0, 0) (Some 2000) (Some ''cafe'') [] None
     = Inl api_not_loaded \<and>
   searchNearbyPlaces unloaded_provider sample_distance (0, 0) (Some 2000) (Some ''library'') []
      None = Inl api_not_loaded \<and>
   textSearchPlaces unloaded_provider sample_distance ''study'' (0, 0) (Some 2000)
     = Inl api_not_loaded \<and>
   searchMultipleTypes unloaded_provider sample_distance (Some [''cafe'', ''library''])
      (Some [''study'']) (0, 0) (Some 2000) = Inr []"
proof -
  have bar: "searchNearbyPlaces sample_provider sample_distance (0, 0) None (Some ''bar'') [] None
     = Inl ''Places search failed: REQUEST_DENIED''"
    by (simp add: searchNearbyPlaces_def sample_provider_def nonempty_string_def)
  have cafe: "searchNearbyPlaces sample_provider sample_distance (0, 0) None (Some ''cafe'') []
      None
     = Inr [with_distance sample_distance (0, 0) (typed_place ''A'' [''cafe'']),
            with_distance sample_distance (0, 0) (typed_place ''B'' [''cafe''])]"
    by (simp add: searchNearbyPlaces_def sample_provider_def nonempty_string_def)
  have coffee: "textSearchPlaces sample_provider sample_distance ''coffee'' (0, 0) None
     = Inr [with_distance sample_distance (0, 0) (rated_place ''B'' 4.5),
            with_distance sample_distance (0, 0) (rated_place ''C'' 4)]"
    by (simp add: textSearchPlaces_def sample_provider_def)
  have tea: "textSearchPlaces sample_provider sample_distance ''tea'' (0, 0) None = Inr []"
    by (simp add: textSearchPlaces_def sample_provider_def)
  have partial: "searchMultipleTypes sample_provider sample_distance (Some [''cafe'', ''bar''])
      (Some [''coffee'', ''tea'']) (0, 0) None
    = Inr (deduplicate
        [[with_distance sample_distance (0, 0) (typed_place ''A'' [''cafe'']),
          with_distance sample_distance (0, 0) (typed_place ''B'' [''cafe''])],
         [with_distance sample_distance (0, 0) (rated_place ''B'' 4.5),
          with_distance sample_distance (0, 0) (rated_place ''C'' 4)],
         []])"
    using searchMultipleTypes_never_rejects
      [of sample_provider sample_distance "[''cafe'', ''bar'']" "Some [''coffee'', ''tea'']"
          "(0, 0)" None]
    by (simp add: bar cafe coffee tea resolved_value_def map_filter_simps)
  have n: "searchNearbyPlaces unloaded_provider sample_distance (0, 0) (Some 2000) (Some t) []
      None = Inl api_not_loaded" for t
    by (simp add: searchNearbyPlaces_def unloaded_provider_def failing_provider_def)
  have k: "textSearchPlaces unloaded_provider sample_distance q (0, 0) (Some 2000)
      = Inl api_not_loaded" for q
    by (simp add: textSearchPlaces_def unloaded_provider_def failing_provider_def)
  have total: "searchMultipleTypes unloaded_provider sample_distance (Some [''cafe'', ''library''])
      (Some [''study'']) (0, 0) (Some 2000) = Inr []"
    using searchMultipleTypes_never_rejects
      [of unloaded_provider sample_distance "[''cafe'', ''library'']" "Some [''study'']"
          "(0, 0)" "Some 2000"] n k
    by blast
  from bar partial sample_search n k total show ?thesis by simp
qed

text \<open>
  The claim as first stated fails: with a provider that answers every search with an
  error status, or whose API is not loaded, every sub-query is rejected and
  \<open>searchMultipleTypes\<close> resolves with the empty list.
\<close>

theorem searchMultipleTypes_total_failure_counterexample:
  "searchNearbyPlaces failing_provider sample_distance (0, 0) None (Some ''cafe'') [] None
     = Inl ''Places search failed: UNKNOWN_ERROR'' \<and>
   textSearchPlaces failing_provider sample_distance ''coffee'' (0, 0) None
     = Inl ''Text search failed: UNKNOWN_ERROR'' \<and>
   searchMultipleTypes failing_provider sample_distance (Some [''cafe'']) (Some [''coffee''])
      (0, 0) None = Inr [] \<and>
   searchMultipleTypes unloaded_provider sample_distance (Some [''cafe'']) (Some [''coffee''])
      (0, 0) None = Inr []"
  by (simp add: searchMultipleTypes_def sub_query_results_def deduplicate_def
      searchNearbyPlaces_def textSearchPlaces_def catch_empty_def nonempty_string_def
      failing_provider_def unloaded_provider_def)


section \<open>Properties of the mood table\<close>

lemma moodMappings_types_nonempty: "\<forall>e\<in>set moodMappings. types (snd e) \<noteq> []"
  by (simp add: moodMappings_def)

lemma indexOf_Some_less: "indexOf xs x = Some i \<Longrightarrow> i < length xs"
  by (induction xs arbitrary: i) (auto split: if_splits)

lemma get_property_own:
  "key \<in> fst ` set table \<Longrightarrow> \<exists>m. get_property table key = MoodMapping m \<and> m \<in> snd ` set table"
proof -
  assume "key \<in> fst ` set table"
  then obtain m where m: "map_of table key = Some m"
    by (metis domD dom_map_of_conv_image_fst)
  then have "(key, m) \<in> set table" by (rule map_of_SomeD)
  then have "m \<in> snd ` set table" by force
  with m show ?thesis by (simp add: get_property_def)
qed

lemma get_property_cases:
  "key \<notin> set object_prototype_properties \<Longrightarrow> get_property table key \<noteq> Undefined \<Longrightarrow>
   \<exists>m. get_property table key = MoodMapping m \<and> m \<in> snd ` set table"
  by (cases "map_of table key") (auto simp: get_property_def dest!: map_of_SomeD intro: rev_image_eqI)

lemma keyword_or_fallback_cases:
  "\<exists>m. keyword_or_fallback table nm = MoodMapping m \<and>
       (m \<in> snd ` set table \<or> m = fallback_mapping nm)"
proof (cases "find (keyword_match nm) table")
  case None
  then show ?thesis by (simp add: keyword_or_fallback_def)
next
  case (Some e)
  then have "e \<in> set table" by (auto simp: find_Some_iff)
  then have "snd e \<in> snd ` set table" by simp
  with Some show ?thesis
    by (cases e) (auto simp: keyword_or_fallback_def)
qed

lemma getMoodMapping_in_cases:
  assumes "normalize_mood mood \<notin> set object_prototype_properties"
  shows "\<exists>m. getMoodMapping_in table mood = MoodMapping m \<and>
           (m \<in> snd ` set table \<or> m = fallback_mapping (normalize_mood mood))"
proof (cases "get_property table (normalize_mood mood) = Undefined")
  case False
  with assms get_property_cases [of "normalize_mood mood" table] show ?thesis
    by (auto simp: getMoodMapping_in_def)
next
  case undef: True
  show ?thesis
  proof (cases "indexOf (map (\<lambda>k. hyphens_to_spaces k) (map fst table)) (normalize_mood mood)")
    case (Some i)
    then have "i < length table" using indexOf_Some_less by fastforce
    then have "map snd table ! i \<in> snd ` set table" by simp
    with undef Some show ?thesis by (simp add: getMoodMapping_in_def)
  next
    case noindex: None
    show ?thesis
    proof (cases "find (partial_match (normalize_mood mood)) (map fst table)")
      case None
      with undef noindex keyword_or_fallback_cases [of table "normalize_mood mood"]
      show ?thesis by (simp add: getMoodMapping_in_def)
    next
      case (Some pm)
      then have "pm \<in> fst ` set table" by (auto simp: find_Some_iff)
      then have "\<exists>m. get_property table pm = MoodMapping m \<and> m \<in> snd ` set table"
        by (rule get_property_own)
      with undef noindex Some keyword_or_fallback_cases [of table "normalize_mood mood"]
      show ?thesis by (auto simp: getMoodMapping_in_def)
    qed
  qed
qed

text \<open>
  For every input whose normalised form is not the name of a property inherited from
  \<open>Object.prototype\<close>, the result is a mood mapping with at least one type: an entry
  of the table or the fallback.
\<close>

lemma getMoodMapping_usable:
  assumes "normalize_mood mood \<notin> set object_prototype_properties"
  shows "\<exists>m. getMoodMapping mood = MoodMapping m \<and> length (types m) \<ge> 1"
proof -
  obtain m where m: "getMoodMapping mood = MoodMapping m"
    and c: "m \<in> snd ` set moodMappings \<or> m = fallback_mapping (normalize_mood mood)"
    using getMoodMapping_in_cases [OF assms, of moodMappings] by (auto simp: getMoodMapping_def)
  have "types m \<noteq> []"
    using c moodMappings_types_nonempty by (auto simp: fallback_mapping_def)
  then have "length (types m) \<ge> 1" by (cases "types m") simp_all
  with m show ?thesis by blast
qed

lemma getMoodMapping_fallback:
  assumes "get_property moodMappings (normalize_mood mood) = Undefined"
    and "indexOf (map (\<lambda>k. hyphens_to_spaces k) (map fst moodMappings)) (normalize_mood mood) = None"
    and "find (partial_match (normalize_mood mood)) (map fst moodMappings) = None"
    and "find (keyword_match (normalize_mood mood)) moodMappings = None"
  shows "getMoodMapping mood = MoodMapping (fallback_mapping (normalize_mood mood))"
  using assms by (simp add: getMoodMapping_def getMoodMapping_in_def keyword_or_fallback_def)

lemma getMoodMapping_fallback_example:
  "getMoodMapping ''xyzzy'' = MoodMapping (fallback_mapping ''xyzzy'')"
  by code_simp

text \<open>
  C8. \<open>getMoodMapping\<close> looks the normalised input up with \<open>moodMappings[normalizedMood]\<close>
  and returns whatever truthy value it finds. For the inputs \<open>constructor\<close> and
  \<open>__proto__\<close> that is a property inherited from \<open>Object.prototype\<close>, not a mood
  mapping: the result has no list of types, where the claim promises a profile with at
  least one category (here the fallback).
\<close>

theorem getMoodMapping_constructor:
  "getMoodMapping ''constructor'' = Inherited ''constructor'' \<and>
   getMoodMapping ''__proto__'' = Inherited ''__proto__''"
  by (simp add: getMoodMapping_def getMoodMapping_in_def normalize_mood_def toLowerCase_def
     toLowerChar_def trim_def is_whitespace_def hyphens_to_spaces_def get_property_def
     moodMappings_def object_prototype_properties_def)


section \<open>Properties of the details cache\<close>

lemma getPlaceDetails_cache_unchanged:
  "detailsCache (fst (getPlaceDetails loaded st placeId now)) = detailsCache st"
  by (simp add: getPlaceDetails_def split: option.splits)

text \<open>After \<open>clearDetailsCache\<close> no call is served from the cache.\<close>

lemma clearDetailsCache_evicts:
  "snd (getPlaceDetails True (clearDetailsCache st) placeId now) = Pending"
  by (simp add: getPlaceDetails_def clearDetailsCache_def)

lemma details_step_keeps_entry:
  "other_than placeId ev \<Longrightarrow> detailsCache (details_step st ev) placeId = detailsCache st placeId"
  by (cases ev) (auto simp: getPlaceDetails_cache_unchanged getDetails_callback_def)

lemma details_run_keeps_entry:
  "list_all (other_than placeId) evs \<Longrightarrow>
   detailsCache (foldl details_step st evs) placeId = detailsCache st placeId"
  by (induction evs arbitrary: st) (simp_all add: details_step_keeps_entry)

lemma getPlaceDetails_hit:
  "detailsCache st placeId = Some \<lparr>data = result, timestamp = t1\<rparr> \<Longrightarrow>
   t2 - t1 < CACHE_DURATION \<Longrightarrow>
   getPlaceDetails loaded st placeId t2 = (st, Resolved result)"
  by (simp add: getPlaceDetails_def)

text \<open>
  C10. \<open>getPlaceDetails\<close> caches successful results per place id. After the provider
  has answered a request for an id with status OK at time \<open>t1\<close>, a call for that id at
  a time \<open>t2\<close> less than \<open>CACHE_DURATION\<close> later resolves with the same record and
  leaves the state as it is, so no request is sent; calls and answers for other ids and
  failed answers in between do not change that. A failed answer rejects the promise and
  leaves the cache as it is, and so does every call.
\<close>

theorem getPlaceDetails_caches_success:
  "(getDetails_callback st placeId result ''OK'' t1 = (st1, outcome) \<and>
    list_all (other_than placeId) evs \<and> t2 - t1 < CACHE_DURATION
    \<longrightarrow> getPlaceDetails loaded (foldl details_step st1 evs) placeId t2
          = (foldl details_step st1 evs, Resolved result)) \<and>
   (status \<noteq> ''OK''
    \<longrightarrow> getDetails_callback st placeId result status t1
          = (st, Rejected (''Place details request failed: '' @ status))) \<and>
   detailsCache (fst (getPlaceDetails loaded st placeId t1)) = detailsCache st"
proof -
  have hit: "getPlaceDetails loaded (foldl details_step st1 evs) placeId t2
          = (foldl details_step st1 evs, Resolved result)"
    if cb: "getDetails_callback st placeId result ''OK'' t1 = (st1, outcome)"
      and evs: "list_all (other_than placeId) evs" and fresh: "t2 - t1 < CACHE_DURATION"
  proof -
    have "detailsCache st1 placeId = Some \<lparr>data = result, timestamp = t1\<rparr>"
      using cb by (auto simp: getDetails_callback_def)
    then have "detailsCache (foldl details_step st1 evs) placeId
        = Some \<lparr>data = result, timestamp = t1\<rparr>"
      using evs by (simp add: details_run_keeps_entry)
    then show ?thesis using fresh by (rule getPlaceDetails_hit)
  qed
  have "getDetails_callback st placeId result status t1
          = (st, Rejected (''Place details request failed: '' @ status))"
    if "status \<noteq> ''OK''"
    using that by (simp add: getDetails_callback_def)
  with hit getPlaceDetails_cache_unchanged show ?thesis by blast
qed

text \<open>A record cached at time 1000 is served at 300999, and requested again at 301000.\<close>

theorem getPlaceDetails_caches_success_witness:
  "getPlaceDetails True
     (foldl details_step
        (fst (getDetails_callback empty_details ''A'' cafe_details ''OK'' 1000))
        [Call True ''B'' 2000, Answer ''B'' (bare_place ''B'') ''OK'' 2500,
         Answer ''A'' cafe_details ''NOT_FOUND'' 3000])
     ''A'' 300999
   = (foldl details_step
        (fst (getDetails_callback empty_details ''A'' cafe_details ''OK'' 1000))
        [Call True ''B'' 2000, Answer ''B'' (bare_place ''B'') ''OK'' 2500,
         Answer ''A'' cafe_details ''NOT_FOUND'' 3000],
      Resolved cafe_details) \<and>
   snd (getPlaceDetails True
     (fst (getDetails_callback empty_details ''A'' cafe_details ''OK'' 1000)) ''A'' 301000)
   = Pending"
proof -
  have cb: "getDetails_callback empty_details ''A'' cafe_details ''OK'' 1000
      = (fst (getDetails_callback empty_details ''A'' cafe_details ''OK'' 1000),
         snd (getDetails_callback empty_details ''A'' cafe_details ''OK'' 1000))"
    by simp
  have evs: "list_all (other_than ''A'')
      [Call True ''B'' 2000, Answer ''B'' (bare_place ''B'') ''OK'' 2500,
       Answer ''A'' cafe_details ''NOT_FOUND'' 3000]"
    by simp
  have fresh: "(300999::int) - 1000 < CACHE_DURATION"
    by (simp add: CACHE_DURATION_def)
  have expired: "snd (getPlaceDetails True
     (fst (getDetails_callback empty_details ''A'' cafe_details ''OK'' 1000)) ''A'' 301000)
   = Pending"
    by (simp add: getPlaceDetails_def getDetails_callback_def empty_details_def
        CACHE_DURATION_def)
  from getPlaceDetails_caches_success
    [of empty_details "''A''" cafe_details 1000 _ _
        "[Call True ''B'' 2000, Answer ''B'' (bare_place ''B'') ''OK'' 2500,
          Answer ''A'' cafe_details ''NOT_FOUND'' 3000]" 300999 True "''X''"]
    cb evs fresh expired
  show ?thesis by blast
qed


section \<open>Properties of the search session\<close>

lemma marked_stays_marked:
  "n < length xs \<Longrightarrow> xs ! n \<Longrightarrow> xs[k := True] ! n"
  by (cases "k = n") simp_all

lemma mark_previous:
  "n < length xs \<Longrightarrow> (n \<noteq> k \<longrightarrow> xs ! n) \<Longrightarrow> xs[k := True] ! n"
  by (cases "k = n") simp_all

lemma search_failed_refs [simp]:
  "abort_objects (search_failed st cur err) = abort_objects st"
  "searchAbortRef (search_failed st cur err) = searchAbortRef st"
  by (simp_all add: search_failed_def)

lemma publish_results_refs [simp]:
  "abort_objects (publish_results st p results) = abort_objects st"
  "searchAbortRef (publish_results st p results) = searchAbortRef st"
  by (simp_all add: publish_results_def Let_def split: mood_value.splits)

lemma resume_refs [simp]:
  "abort_objects (searchByMood_resume pr cd st p) = abort_objects st"
  "searchAbortRef (searchByMood_resume pr cd st p) = searchAbortRef st"
  by (simp_all add: searchByMood_resume_def split: sum.splits)

lemma resume_aborted:
  "aborted st (currentSearch p) \<Longrightarrow> searchByMood_resume pr cd st p = st"
  by (simp add: searchByMood_resume_def search_failed_def split: sum.splits)

lemma searchByMood_refs:
  "searchByMood st mood (Some loc) ok = (st', r) \<Longrightarrow>
   abort_objects st' =
     (case searchAbortRef st of None \<Rightarrow> abort_objects st
      | Some previous \<Rightarrow> (abort_objects st)[previous := True]) @ [False] \<and>
   searchAbortRef st' = Some (length (abort_objects st))"
  by (auto simp: searchByMood_def Let_def split: if_splits option.splits)

lemma searchByMood_no_location_refs:
  "searchByMood st mood None ok = (st', r) \<Longrightarrow>
   abort_objects st' = abort_objects st \<and> searchAbortRef st' = searchAbortRef st \<and> r = None"
  by (auto simp: searchByMood_def)

lemma searchByMood_pending:
  "searchByMood st mood (Some loc) True = (st', r) \<Longrightarrow>
   \<exists>p. r = Some p \<and> currentSearch p = length (abort_objects st)"
  by (auto simp: searchByMood_def Let_def split: option.splits)

lemma searchByMood_aborted_mono:
  "aborted st n \<Longrightarrow> searchByMood st mood location ok = (st', r) \<Longrightarrow> aborted st' n"
proof (cases location)
  case None
  assume "aborted st n" "searchByMood st mood location ok = (st', r)"
  with None show ?thesis
    using searchByMood_no_location_refs [of st mood ok st' r] by (simp add: aborted_def)
next
  case (Some loc)
  assume a: "aborted st n" and s: "searchByMood st mood location ok = (st', r)"
  from s Some have refs: "abort_objects st' =
     (case searchAbortRef st of None \<Rightarrow> abort_objects st
      | Some previous \<Rightarrow> (abort_objects st)[previous := True]) @ [False]"
    using searchByMood_refs by blast
  from a show ?thesis
    unfolding aborted_def refs
    by (auto simp: nth_append marked_stays_marked split: option.splits)
qed

lemma searchByMood_preserves_inv:
  assumes "only_current_live st" and "searchByMood st mood location ok = (st', r)"
  shows "only_current_live st'"
proof (cases location)
  case None
  with assms show ?thesis
    using searchByMood_no_location_refs [of st mood ok st' r] by (simp add: only_current_live_def)
next
  case (Some loc)
  with assms(2) have refs: "abort_objects st' =
     (case searchAbortRef st of None \<Rightarrow> abort_objects st
      | Some previous \<Rightarrow> (abort_objects st)[previous := True]) @ [False]"
    and cur: "searchAbortRef st' = Some (length (abort_objects st))"
    using searchByMood_refs by blast+
  from assms(1) show ?thesis
    unfolding only_current_live_def refs cur
    by (auto simp: nth_append mark_previous less_Suc_eq split: option.splits)
qed

lemma searchByMood_aborts_others:
  assumes "only_current_live st" and "searchByMood st mood (Some loc) ok = (st', r)"
    and "n < length (abort_objects st)"
  shows "aborted st' n"
proof -
  from assms(2) have refs: "abort_objects st' =
     (case searchAbortRef st of None \<Rightarrow> abort_objects st
      | Some previous \<Rightarrow> (abort_objects st)[previous := True]) @ [False]"
    using searchByMood_refs by blast
  from assms(1,3) show ?thesis
    unfolding only_current_live_def aborted_def refs
    by (auto simp: nth_append mark_previous split: option.splits)
qed

lemma step_preserves_inv:
  "only_current_live (hook s) \<Longrightarrow> only_current_live (hook (session_step cd s ev))"
proof (cases ev)
  case (StartSearch mood location ok)
  assume "only_current_live (hook s)"
  then show ?thesis
    using StartSearch searchByMood_preserves_inv [of "hook s" mood location ok]
    by (cases "searchByMood (hook s) mood location ok") (auto split: option.splits)
next
  case (Arrive k pr)
  assume "only_current_live (hook s)"
  then show ?thesis
    using Arrive by (simp add: only_current_live_def)
qed

lemma step_aborted_mono:
  "aborted (hook s) n \<Longrightarrow> aborted (hook (session_step cd s ev)) n"
proof (cases ev)
  case (StartSearch mood location ok)
  assume "aborted (hook s) n"
  then show ?thesis
    using StartSearch searchByMood_aborted_mono [of "hook s" n mood location ok]
    by (cases "searchByMood (hook s) mood location ok") (auto split: option.splits)
next
  case (Arrive k pr)
  assume "aborted (hook s) n"
  then show ?thesis
    using Arrive by (simp add: aborted_def)
qed

lemma step_length_mono:
  "length (abort_objects (hook s)) \<le> length (abort_objects (hook (session_step cd s ev)))"
proof (cases ev)
  case (StartSearch mood location ok)
  show ?thesis
  proof (cases location)
    case None
    then show ?thesis
      using StartSearch searchByMood_no_location_refs [of "hook s" mood ok]
      by (cases "searchByMood (hook s) mood None ok") (auto split: option.splits)
  next
    case (Some loc)
    then show ?thesis
      using StartSearch searchByMood_refs [of "hook s" mood loc ok]
      by (cases "searchByMood (hook s) mood (Some loc) ok") (auto split: option.splits)
  qed
next
  case (Arrive k pr)
  then show ?thesis by simp
qed

lemma run_preserves_inv:
  "only_current_live (hook s) \<Longrightarrow> only_current_live (hook (session_run cd s evs))"
  unfolding session_run_def
  by (induction evs arbitrary: s) (simp_all add: step_preserves_inv)

lemma run_aborted_mono:
  "aborted (hook s) n \<Longrightarrow> aborted (hook (session_run cd s evs)) n"
  unfolding session_run_def
  by (induction evs arbitrary: s) (simp_all add: step_aborted_mono)

lemma run_length_mono:
  "length (abort_objects (hook s)) \<le> length (abort_objects (hook (session_run cd s evs)))"
  unfolding session_run_def
proof (induction evs arbitrary: s)
  case Nil
  then show ?case by simp
next
  case (Cons ev evs)
  have "length (abort_objects (hook s)) \<le> length (abort_objects (hook (session_step cd s ev)))"
    by (rule step_length_mono)
  also have "\<dots> \<le> length (abort_objects (hook (foldl (session_step cd) (session_step cd s ev) evs)))"
    by (rule Cons.IH)
  finally show ?case by simp
qed

lemma run_append:
  "session_run cd s (evs1 @ evs2) = session_run cd (session_run cd s evs1) evs2"
  by (simp add: session_run_def)

lemma initial_inv: "only_current_live (hook initial_session)"
  by (simp add: only_current_live_def initial_session_def initial_hook_def)


lemma hook_step_start:
  "hook (session_step cd s (StartSearch mood location ok))
     = fst (searchByMood (hook s) mood location ok)"
  by (cases "searchByMood (hook s) mood location ok") (auto split: option.splits)

lemma reachable_inv: "only_current_live (hook (session_run cd initial_session evs))"
  using initial_inv by (rule run_preserves_inv)

text \<open>
  C6. If search B is started (with a location) while search A is waiting for the
  provider, then the answer for A, whenever it arrives afterwards and whatever it is,
  leaves the state of the hook as it is: neither \<open>places\<close> nor \<open>filteredPlaces\<close> nor
  the error or loading state is published from A. This holds after any history, with any
  events between the two starts and after the second one, hence for three or more
  searches that supersede each other.
\<close>

theorem superseded_search_never_published:
  assumes reach: "s0 = session_run cd initial_session evs0"
    and A: "searchByMood (hook s0) moodA (Some locA) True = (hA, Some a)"
  shows "searchByMood_resume pr cd
           (hook (session_run cd (session_step cd s0 (StartSearch moodA (Some locA) True))
                    (evs1 @ StartSearch moodB (Some locB) okB # evs2))) a
         = hook (session_run cd (session_step cd s0 (StartSearch moodA (Some locA) True))
                    (evs1 @ StartSearch moodB (Some locB) okB # evs2))"
proof -
  define sA where "sA = session_step cd s0 (StartSearch moodA (Some locA) True)"
  define s1 where "s1 = session_run cd sA evs1"
  define s2 where "s2 = session_step cd s1 (StartSearch moodB (Some locB) okB)"
  define s3 where "s3 = session_run cd s2 evs2"
  have run: "session_run cd sA (evs1 @ StartSearch moodB (Some locB) okB # evs2) = s3"
    by (simp add: s3_def s2_def s1_def session_run_def)
  have inv0: "only_current_live (hook s0)"
    unfolding reach by (rule reachable_inv)
  have hookA: "hook sA = hA"
    using A by (simp add: sA_def hook_step_start)
  have cur: "currentSearch a = length (abort_objects (hook s0))"
    using searchByMood_pending [OF A] by auto
  have "abort_objects hA =
     (case searchAbortRef (hook s0) of None \<Rightarrow> abort_objects (hook s0)
      | Some previous \<Rightarrow> (abort_objects (hook s0))[previous := True]) @ [False]"
    using searchByMood_refs [OF A] by blast
  then have "length (abort_objects hA) = Suc (length (abort_objects (hook s0)))"
    by (simp split: option.splits)
  then have "currentSearch a < length (abort_objects (hook sA))"
    using cur hookA by simp
  also have "\<dots> \<le> length (abort_objects (hook s1))"
    unfolding s1_def by (rule run_length_mono)
  finally have in_range: "currentSearch a < length (abort_objects (hook s1))" .
  have "only_current_live (hook sA)"
    unfolding sA_def using inv0 by (rule step_preserves_inv)
  then have inv1: "only_current_live (hook s1)"
    unfolding s1_def by (rule run_preserves_inv)
  have "hook s2 = fst (searchByMood (hook s1) moodB (Some locB) okB)"
    unfolding s2_def by (rule hook_step_start)
  then have "searchByMood (hook s1) moodB (Some locB) okB
      = (hook s2, snd (searchByMood (hook s1) moodB (Some locB) okB))"
    by simp
  with inv1 have "aborted (hook s2) (currentSearch a)"
    using in_range by (rule searchByMood_aborts_others)
  then have "aborted (hook s3) (currentSearch a)"
    unfolding s3_def by (rule run_aborted_mono)
  then have "searchByMood_resume pr cd (hook s3) a = hook s3"
    by (rule resume_aborted)
  then show ?thesis
    unfolding run [symmetric] sA_def .
qed

lemma step_arrival_refs:
  "is_arrival ev \<Longrightarrow>
   abort_objects (hook (session_step cd s ev)) = abort_objects (hook s) \<and>
   searchAbortRef (hook (session_step cd s ev)) = searchAbortRef (hook s)"
proof (cases ev)
  case (StartSearch mood location ok)
  assume "is_arrival ev"
  with StartSearch have "location = None" by simp
  with StartSearch show ?thesis
    using searchByMood_no_location_refs [of "hook s" mood ok]
    by (cases "searchByMood (hook s) mood None ok") (auto split: option.splits)
next
  case (Arrive k pr)
  then show ?thesis by simp
qed

lemma run_arrivals_refs:
  "list_all is_arrival evs \<Longrightarrow>
   abort_objects (hook (session_run cd s evs)) = abort_objects (hook s) \<and>
   searchAbortRef (hook (session_run cd s evs)) = searchAbortRef (hook s)"
  unfolding session_run_def
  by (induction evs arbitrary: s) (simp_all add: step_arrival_refs)

text \<open>The latest search, while no other search has been started, publishes its result.\<close>

lemma latest_search_published:
  assumes reach: "s0 = session_run cd initial_session evs0"
    and B: "searchByMood (hook s0) moodB (Some locB) True = (hB, Some b)"
    and arrivals: "list_all is_arrival evs"
    and results: "searchMultipleTypes pr cd (types_of (search_mapping b))
             (keywords_of (search_mapping b)) (search_location b) (Some SEARCH_RADIUS_DEFAULT)
           = Inr results"
  shows "searchByMood_resume pr cd
           (hook (session_run cd (session_step cd s0 (StartSearch moodB (Some locB) True)) evs)) b
         = publish_results
             (hook (session_run cd (session_step cd s0 (StartSearch moodB (Some locB) True)) evs))
             b results"
proof -
  define sB where "sB = session_step cd s0 (StartSearch moodB (Some locB) True)"
  define s1 where "s1 = session_run cd sB evs"
  have hookB: "hook sB = hB"
    using B by (simp add: sB_def hook_step_start)
  have cur: "currentSearch b = length (abort_objects (hook s0))"
    using searchByMood_pending [OF B] by auto
  have ref: "searchAbortRef hB = Some (currentSearch b)"
    using searchByMood_refs [OF B] cur by simp
  have "only_current_live (hook s0)"
    unfolding reach by (rule reachable_inv)
  then have "only_current_live (hook sB)"
    unfolding sB_def by (rule step_preserves_inv)
  then have "\<not> abort_objects (hook sB) ! currentSearch b"
    using ref hookB by (simp add: only_current_live_def)
  then have "\<not> aborted (hook s1) (currentSearch b)"
    using run_arrivals_refs [OF arrivals, of cd sB] by (simp add: s1_def aborted_def)
  then have "searchByMood_resume pr cd (hook s1) b = publish_results (hook s1) b results"
    using results by (simp add: searchByMood_resume_def)
  then show ?thesis
    unfolding s1_def sB_def .
qed


lemma getMoodMapping_work:
  "getMoodMapping ''work'' = MoodMapping
     \<lparr>types = [''cafe'', ''library''],
      mood_keywords = [''coworking'', ''workspace'', ''study cafe'', ''wifi cafe'',
        ''coffee shop work''],
      description = ''Places to work or study'',
      preferredPrice = Some [1, 2],
      prioritizeRating = True\<rparr>"
  by code_simp

lemma two_searches_places:
  "map place_id (places (hook two_searches)) = [''A'', ''B'']"
  by (simp add: two_searches_def session_run_def searchByMood_def searchByMood_resume_def Let_def
      initial_session_def initial_hook_def getMoodMapping_work types_of_def keywords_of_def
      aborted_def publish_results_def
      searchMultipleTypes_def sub_query_results_def deduplicate_def
      searchNearbyPlaces_def textSearchPlaces_def catch_empty_def nonempty_string_def
      sample_provider_def add_result_def with_distance_def typed_place_def rated_place_def
      bare_place_def MAX_RESULTS_def)

text \<open>
  In the example run the late answer for the coffee search changes nothing, and the
  places are those of the search for work.
\<close>

theorem superseded_search_never_published_witness:
  "searchByMood_resume sample_provider sample_distance (hook two_searches) coffee_search
     = hook two_searches \<and>
   map place_id (places (hook two_searches)) = [''A'', ''B'']"
proof -
  have reach: "initial_session = session_run sample_distance initial_session []"
    by (simp add: session_run_def)
  have A: "searchByMood (hook initial_session) ''coffee'' (Some (0, 0)) True
      = (fst (searchByMood (hook initial_session) ''coffee'' (Some (0, 0)) True),
         Some coffee_search)"
    by (simp add: searchByMood_def Let_def initial_session_def initial_hook_def
        coffee_search_def)
  from superseded_search_never_published
    [OF reach A, of sample_provider "[]" "''work''" "(0, 0)" True "[Arrive 1 sample_provider]"]
    two_searches_places
  show ?thesis by (simp only: two_searches_def)
qed


end
